theory Spec2Isabelle
  imports Complex_Main
begin

section \<open>Data model\<close>

text \<open>
  The sources modelled here are \<^verbatim>\<open>segmented_arc.cpp\<close>, \<^verbatim>\<open>segmented_arc.h\<close> and
  \<^verbatim>\<open>segmented_spline.cpp\<close>. A C++ \<^verbatim>\<open>double\<close> is idealised as a \<open>real\<close>: every claim
  treated below concerns the control flow of the accumulator, not rounding. An \<^verbatim>\<open>int\<close> is an
  \<open>int\<close>; the one place where a \<^verbatim>\<open>double\<close> is cast to \<^verbatim>\<open>int\<close> is modelled with its
  undefined cases written out (\<open>floor_to_int\<close>). An \<^verbatim>\<open>unsigned char\<close> precision is a \<open>nat\<close>.

  Field names are those of the source without the trailing underscore. The field
  \<^verbatim>\<open>length\<close> of a curve is written \<open>length_arc\<close> and \<open>length_spline\<close>.
\<close>

text \<open>\<^verbatim>\<open>printer_point\<close>: the fields the three source files read.\<close>

record printer_point =
  x :: real
  y :: real
  z :: real
  e_offset :: real
  is_extruder_relative :: bool
  f :: real
  distance :: real

text \<open>
  \<^verbatim>\<open>arc\<close>: the fields read by \<^verbatim>\<open>segmented_arc.cpp\<close>. The centre is kept as two coordinates;
  it is read only through \<open>get_i\<close> and \<open>get_j\<close>.
\<close>

record arc =
  start_point :: printer_point
  end_point :: printer_point
  center_x :: real
  center_y :: real
  radius :: real
  angle_radians :: real
  length_arc :: real

text \<open>
  Modelled from the spec: the struct \<^verbatim>\<open>arc\<close> and its methods \<^verbatim>\<open>get_i()\<close>, \<^verbatim>\<open>get_j()\<close> are not
  among the sources. The glossary defines the centre offset (I, J) as the displacement from the
  arc's start point to the centre of its circle, along the two primary axes.
\<close>

definition get_i :: "arc \<Rightarrow> real" where
  "get_i a = center_x a - x (arc.start_point a)"

definition get_j :: "arc \<Rightarrow> real" where
  "get_j a = center_y a - y (arc.start_point a)"

text \<open>\<^verbatim>\<open>spline\<close>: the fields read by \<^verbatim>\<open>segmented_spline.cpp\<close>.\<close>

record spline =
  start_point :: printer_point
  end_point :: printer_point
  length_spline :: real

text \<open>
  \<^verbatim>\<open>segmented_shape\<close>, the base class of both accumulators: the point buffer, the running
  length of the original path, the validity flag, the extrusion delta, the configuration and
  the two rejection counters.
\<close>

record segmented_shape =
  points :: "printer_point list"
  original_shape_length :: real
  is_shape :: bool
  e_relative :: real
  allow_3d_shapes :: bool
  min_segments :: int
  max_segments :: int
  mm_per_segment :: real
  resolution_mm :: real
  path_tolerance_percent :: real
  max_gcode_length :: int
  xyz_precision :: nat
  e_precision :: nat
  xyz_tolerance :: real
  num_gcode_length_exceptions :: int
  num_firmware_compensations :: int

record segmented_arc = segmented_shape +
  current_arc :: arc
  max_radius_mm :: real

record segmented_spline = segmented_shape +
  current_spline :: spline

text \<open>
  Modelled from the spec: the getters of \<^verbatim>\<open>segmented_shape\<close> are not among the sources. Each
  one reads the configured value of the accumulator; \<^verbatim>\<open>is_shape()\<close> and \<^verbatim>\<open>set_is_shape\<close> are
  the field \<open>is_shape\<close> and its update.
\<close>

definition get_min_segments :: "'a segmented_shape_scheme \<Rightarrow> int" where
  "get_min_segments s = min_segments s"

definition get_xyz_precision :: "'a segmented_shape_scheme \<Rightarrow> nat" where
  "get_xyz_precision s = xyz_precision s"

definition get_e_precision :: "'a segmented_shape_scheme \<Rightarrow> nat" where
  "get_e_precision s = e_precision s"

definition get_xyz_tolerance :: "'a segmented_shape_scheme \<Rightarrow> real" where
  "get_xyz_tolerance s = xyz_tolerance s"

section \<open>External collaborators\<close>

text \<open>
  \<^verbatim>\<open>utilities.h\<close>, the constant \<^verbatim>\<open>PI_DOUBLE\<close> and the two geometry solvers are not among the
  sources. They are parameters of the model: every theorem below holds for each choice of
  them, under the hypotheses it states.

  A solver receives the buffer, the current curve (its in/out argument) and the
  configuration, in the order of the call in the source, and returns whether it succeeded
  together with the curve it leaves in the in/out argument.
\<close>

record externals =
  dtos :: "real \<Rightarrow> nat \<Rightarrow> string"
  get_num_digits :: "real \<Rightarrow> int \<Rightarrow> int"
  is_zero :: "real \<Rightarrow> real \<Rightarrow> bool"
  is_equal :: "real \<Rightarrow> real \<Rightarrow> real \<Rightarrow> bool"
  greater_than_or_equal :: "real \<Rightarrow> real \<Rightarrow> bool"
  PI_DOUBLE :: real
  try_create_arc ::
    "printer_point list \<Rightarrow> arc \<Rightarrow> real \<Rightarrow> real \<Rightarrow> real \<Rightarrow> real \<Rightarrow> real \<Rightarrow> bool \<Rightarrow> bool \<times> arc"
  try_create_spline ::
    "printer_point list \<Rightarrow> spline \<Rightarrow> real \<Rightarrow> real \<Rightarrow> real \<Rightarrow> int \<Rightarrow> real \<Rightarrow> real \<Rightarrow> bool \<times> spline"

section \<open>The command emitter\<close>

text \<open>\<^verbatim>\<open>segmented_arc::get_gcode\<close> (segmented\_arc.cpp, lines 169 to 233).\<close>

definition segmented_arc_get_gcode :: "externals \<Rightarrow> segmented_arc \<Rightarrow> string" where
  "segmented_arc_get_gcode u s =
    (let a = current_arc s;
         e_val = (if is_extruder_relative (arc.end_point a) then e_relative s
                  else e_offset (arc.end_point a));
         f_val = (if f (arc.start_point a) = f (arc.end_point a) then 0
                  else f (arc.end_point a));
         has_e = (e_relative s \<noteq> 0);
         has_f = greater_than_or_equal u f_val 1;
         has_z = (allow_3d_shapes s \<and>
                  \<not> is_equal u (z (arc.start_point a)) (z (arc.end_point a)) (get_xyz_tolerance s))
     in (if angle_radians a < 0 then ''G2'' else ''G3'')
        @ '' X'' @ dtos u (x (arc.end_point a)) (get_xyz_precision s)
        @ '' Y'' @ dtos u (y (arc.end_point a)) (get_xyz_precision s)
        @ (if has_z then '' Z'' @ dtos u (z (arc.end_point a)) (get_xyz_precision s) else [])
        @ '' I'' @ dtos u (get_i a) (get_xyz_precision s)
        @ '' J'' @ dtos u (get_j a) (get_xyz_precision s)
        @ (if has_e then '' E'' @ dtos u e_val (get_e_precision s) else [])
        @ (if has_f then '' F'' @ dtos u f_val 0 else []))"

text \<open>
  \<^verbatim>\<open>segmented_arc::get_gcode_length\<close> (segmented\_arc.cpp, lines 235 to 286), without the
  block under \<^verbatim>\<open>#ifdef Debug\<close>.
\<close>

definition segmented_arc_get_gcode_length :: "externals \<Rightarrow> segmented_arc \<Rightarrow> int" where
  "segmented_arc_get_gcode_length u s =
    (let a = current_arc s;
         e_val = (if is_extruder_relative (arc.end_point a) then e_relative s
                  else e_offset (arc.end_point a));
         f_val = (if f (arc.start_point a) = f (arc.end_point a) then 0
                  else f (arc.end_point a));
         has_e = (e_relative s \<noteq> 0);
         has_f = greater_than_or_equal u f_val 1;
         has_z = (allow_3d_shapes s \<and>
                  \<not> is_equal u (z (arc.start_point a)) (z (arc.end_point a)) (get_xyz_tolerance s));
         xyz_prec = int (get_xyz_precision s);
         e_prec = int (get_e_precision s);
         i = get_i a;
         j = get_j a;
         num_spaces = 4 + (if has_z then 1 else 0) + (if has_e then 1 else 0)
                        + (if has_f then 1 else 0);
         num_decimal_points = 4 + (if has_z then 1 else 0) + (if has_e then 1 else 0);
         num_decimals = xyz_prec * (4 + (if has_z then 1 else 0))
                        + e_prec * (if has_e then 1 else 0);
         num_digits =
             get_num_digits u (x (arc.end_point a)) xyz_prec
           + get_num_digits u (y (arc.end_point a)) xyz_prec
           + (if has_z then get_num_digits u (z (arc.end_point a)) xyz_prec else 0)
           + (if has_e then get_num_digits u e_val e_prec else 0)
           + get_num_digits u i xyz_prec
           + get_num_digits u j xyz_prec
           + (if has_f then get_num_digits u f_val 0 else 0);
         num_minus_signs =
             (if x (arc.end_point a) < 0 then 1 else 0)
           + (if y (arc.end_point a) < 0 then 1 else 0)
           + (if i < 0 then 1 else 0)
           + (if j < 0 then 1 else 0)
           + (if has_e \<and> e_val < 0 then 1 else 0)
           + (if has_z \<and> z (arc.end_point a) < 0 then 1 else 0);
         num_parameters = 4 + (if has_e then 1 else 0) + (if has_z then 1 else 0)
                            + (if has_f then 1 else 0)
     in 2 + num_spaces + num_decimal_points + num_digits + num_minus_signs + num_decimals
        + num_parameters)"

text \<open>\<^verbatim>\<open>segmented_spline::get_gcode\<close> (segmented\_spline.cpp, lines 135 to 203).\<close>

definition segmented_spline_get_gcode :: "externals \<Rightarrow> segmented_spline \<Rightarrow> string" where
  "segmented_spline_get_gcode u s =
    (let c = current_spline s;
         e_val = (if is_extruder_relative (spline.end_point c) then e_relative s
                  else e_offset (spline.end_point c));
         f_val = (if f (spline.start_point c) = f (spline.end_point c) then 0
                  else f (spline.end_point c));
         has_e = (e_relative s \<noteq> 0);
         has_f = greater_than_or_equal u f_val 1;
         has_z = (\<not> is_equal u (z (spline.start_point c)) (z (spline.end_point c))
                      (get_xyz_tolerance s))
     in ''G5''
        @ '' X'' @ dtos u (x (spline.end_point c)) (get_xyz_precision s)
        @ '' Y'' @ dtos u (y (spline.end_point c)) (get_xyz_precision s)
        @ (if has_z then '' Z'' @ dtos u (z (spline.end_point c)) (get_xyz_precision s) else [])
        @ (if has_e then '' E'' @ dtos u e_val (get_e_precision s) else [])
        @ (if has_f then '' F'' @ dtos u f_val 0 else []))"

text \<open>
  \<^verbatim>\<open>segmented_spline::get_gcode_length\<close> (segmented\_spline.cpp, lines 205 to 262), without
  the block under \<^verbatim>\<open>#ifdef Debug\<close>. The locals \<^verbatim>\<open>i\<close>, \<^verbatim>\<open>j\<close>, \<^verbatim>\<open>p\<close>, \<^verbatim>\<open>q\<close> are the constant
  \<^verbatim>\<open>0.0\<close> in the source.
\<close>

definition segmented_spline_get_gcode_length :: "externals \<Rightarrow> segmented_spline \<Rightarrow> int" where
  "segmented_spline_get_gcode_length u s =
    (let c = current_spline s;
         e_val = (if is_extruder_relative (spline.end_point c) then e_relative s
                  else e_offset (spline.end_point c));
         f_val = (if f (spline.start_point c) = f (spline.end_point c) then 0
                  else f (spline.end_point c));
         has_e = (e_relative s \<noteq> 0);
         has_f = greater_than_or_equal u f_val 1;
         has_z = (\<not> is_equal u (z (spline.start_point c)) (z (spline.end_point c))
                      (get_xyz_tolerance s));
         xyz_prec = int (get_xyz_precision s);
         e_prec = int (get_e_precision s);
         i = (0 :: real);
         j = (0 :: real);
         p = (0 :: real);
         q = (0 :: real);
         num_spaces = 4 + (if has_z then 1 else 0) + (if has_e then 1 else 0)
                        + (if has_f then 1 else 0);
         num_decimal_points = 4 + (if has_z then 1 else 0) + (if has_e then 1 else 0);
         num_decimals = xyz_prec * (4 + (if has_z then 1 else 0))
                        + e_prec * (if has_e then 1 else 0);
         num_digits =
             get_num_digits u (x (spline.end_point c)) xyz_prec
           + get_num_digits u (y (spline.end_point c)) xyz_prec
           + (if has_z then get_num_digits u (z (spline.end_point c)) xyz_prec else 0)
           + (if has_e then get_num_digits u e_val e_prec else 0)
           + get_num_digits u i xyz_prec
           + get_num_digits u j xyz_prec
           + get_num_digits u p xyz_prec
           + get_num_digits u q xyz_prec
           + (if has_f then get_num_digits u f_val 0 else 0);
         num_minus_signs =
             (if x (spline.end_point c) < 0 then 1 else 0)
           + (if y (spline.end_point c) < 0 then 1 else 0)
           + (if i < 0 then 1 else 0)
           + (if j < 0 then 1 else 0)
           + (if p < 0 then 1 else 0)
           + (if q < 0 then 1 else 0)
           + (if has_e \<and> e_val < 0 then 1 else 0)
           + (if has_z \<and> z (spline.end_point c) < 0 then 1 else 0);
         num_parameters = 6 + (if has_e then 1 else 0) + (if has_z then 1 else 0)
                            + (if has_f then 1 else 0)
     in 2 + num_spaces + num_decimal_points + num_digits + num_minus_signs + num_decimals
        + num_parameters)"

section \<open>The incremental fit controller\<close>

text \<open>
  Modelled from the spec: \<^verbatim>\<open>utilities::floor\<close> is not among the sources; the spec (4.4,
  step 4b) names it floor. \<open>floor_to_int\<close> is the cast \<^verbatim>\<open>(int)utilities::floor(v)\<close> of
  lines 123 and 127. The conversion of a \<^verbatim>\<open>double\<close> to \<^verbatim>\<open>int\<close> is undefined in C++ when
  the value does not fit a 32-bit \<^verbatim>\<open>int\<close>: the model returns \<open>None\<close> there.
\<close>

definition floor_to_int :: "real \<Rightarrow> int option" where
  "floor_to_int v =
    (if - 2147483648 \<le> \<lfloor>v\<rfloor> \<and> \<lfloor>v\<rfloor> \<le> 2147483647 then Some \<lfloor>v\<rfloor> else None)"

text \<open>
  \<^verbatim>\<open>segmented_arc::try_add_point_internal_\<close> (segmented\_arc.cpp, lines 89 to 167) is modelled
  block by block. Each of the three post-fit blocks takes the local \<^verbatim>\<open>abort_arc\<close> and the
  accumulator and returns both.
\<close>

text \<open>Lines 112 to 116: the emitted-length check.\<close>

definition arc_length_filter ::
  "externals \<Rightarrow> bool \<times> segmented_arc \<Rightarrow> bool \<times> segmented_arc" where
  "arc_length_filter u v =
    (case v of (abort_arc, s) \<Rightarrow>
       if 0 < max_gcode_length s \<and> max_gcode_length s < segmented_arc_get_gcode_length u s
       then (True, s\<lparr>num_gcode_length_exceptions := num_gcode_length_exceptions s + 1\<rparr>)
       else (abort_arc, s))"

text \<open>
  Lines 117 to 133: firmware compensation. The result is \<open>None\<close> where the source has no
  defined behaviour: a cast out of the range of \<^verbatim>\<open>int\<close>, or, at line 127, the cast of the
  quotient by an \<^verbatim>\<open>original_shape_length_\<close> of zero, which is infinite or not a number.
\<close>

definition arc_firmware_filter ::
  "externals \<Rightarrow> bool \<times> segmented_arc \<Rightarrow> (bool \<times> segmented_arc) option" where
  "arc_firmware_filter u v =
    (case v of (abort_arc, s) \<Rightarrow>
       if 0 < min_segments s \<and> 0 < mm_per_segment s then
         let circumference = 2 * PI_DOUBLE u * radius (current_arc s)
         in case floor_to_int (circumference / real_of_int (min_segments s)) of
              None \<Rightarrow> None
            | Some num_segments \<Rightarrow>
                if num_segments < min_segments s then
                  if original_shape_length s = 0 then None
                  else
                    case floor_to_int (circumference / original_shape_length s) of
                      None \<Rightarrow> None
                    | Some num_segments' \<Rightarrow>
                        if num_segments' < min_segments s
                        then Some (True, s\<lparr>num_firmware_compensations :=
                                              num_firmware_compensations s + 1\<rparr>)
                        else Some (abort_arc, s)
                else Some (abort_arc, s)
       else Some (abort_arc, s))"

text \<open>Lines 134 to 146: the degenerate fits.\<close>

definition arc_degeneracy_filter ::
  "externals \<Rightarrow> bool \<times> segmented_arc \<Rightarrow> bool \<times> segmented_arc" where
  "arc_degeneracy_filter u v =
    (case v of (abort_arc, s) \<Rightarrow>
       if \<not> abort_arc then
         if is_zero u (get_i (current_arc s)) (get_xyz_tolerance s) \<and>
            is_zero u (get_j (current_arc s)) (get_xyz_tolerance s)
         then (True, s)
         else if length_arc (current_arc s) < get_xyz_tolerance s
         then (True, s)
         else (abort_arc, s)
       else (abort_arc, s))"

text \<open>
  The whole function. The result is the returned \<^verbatim>\<open>bool\<close> with the accumulator after the
  call, or \<open>None\<close> where firmware compensation has no defined behaviour.
  \<^verbatim>\<open>pop_back\<close> is \<open>butlast\<close>.
\<close>

definition segmented_arc_try_add_point_internal ::
  "externals \<Rightarrow> segmented_arc \<Rightarrow> printer_point \<Rightarrow> (bool \<times> segmented_arc) option" where
  "segmented_arc_try_add_point_internal u s p =
    (if int (length (points s)) < get_min_segments s - 1 then Some (False, s)
     else
       let s1 = s\<lparr>points := points s @ [p]\<rparr>;
           previous_shape_length = original_shape_length s1;
           s2 = s1\<lparr>original_shape_length := original_shape_length s1 + distance p\<rparr>;
           original_arc = current_arc s2;
           fit = try_create_arc u (points s2) (current_arc s2) (original_shape_length s2)
                   (max_radius_mm s2) (resolution_mm s2) (path_tolerance_percent s2)
                   (get_xyz_tolerance s2) (allow_3d_shapes s2);
           s3 = s2\<lparr>current_arc := snd fit\<rparr>
       in if fst fit then
            case arc_firmware_filter u (arc_length_filter u (False, s3)) of
              None \<Rightarrow> None
            | Some v \<Rightarrow>
                (case arc_degeneracy_filter u v of (abort_arc, s4) \<Rightarrow>
                   if abort_arc then
                     let s5 = s4\<lparr>current_arc := original_arc\<rparr>;
                         s6 = s5\<lparr>points := butlast (points s5)\<rparr>
                     in Some (False, s6\<lparr>original_shape_length := previous_shape_length\<rparr>)
                   else
                     Some (True, if \<not> is_shape s4 then s4\<lparr>is_shape := True\<rparr> else s4))
          else
            let s6 = s3\<lparr>points := butlast (points s3)\<rparr>
            in Some (False, s6\<lparr>original_shape_length := previous_shape_length\<rparr>))"

text \<open>
  \<^verbatim>\<open>segmented_spline::try_add_point_internal_\<close> (segmented\_spline.cpp, lines 79 to 133),
  in the same blocks. There is no firmware compensation and no cast, so the function always
  returns.
\<close>

text \<open>Lines 93 to 97 of segmented\_spline.cpp.\<close>

definition spline_length_filter ::
  "externals \<Rightarrow> bool \<times> segmented_spline \<Rightarrow> bool \<times> segmented_spline" where
  "spline_length_filter u v =
    (case v of (abort_spline, s) \<Rightarrow>
       if 0 < max_gcode_length s \<and> max_gcode_length s < segmented_spline_get_gcode_length u s
       then (True, s\<lparr>num_gcode_length_exceptions := num_gcode_length_exceptions s + 1\<rparr>)
       else (abort_spline, s))"

text \<open>Lines 98 to 112 of segmented\_spline.cpp; the test of I and J is commented out there.\<close>

definition spline_degeneracy_filter ::
  "externals \<Rightarrow> bool \<times> segmented_spline \<Rightarrow> bool \<times> segmented_spline" where
  "spline_degeneracy_filter u v =
    (case v of (abort_spline, s) \<Rightarrow>
       if \<not> abort_spline then
         if length_spline (current_spline s) < get_xyz_tolerance s
         then (True, s)
         else (abort_spline, s)
       else (abort_spline, s))"

definition segmented_spline_try_add_point_internal ::
  "externals \<Rightarrow> segmented_spline \<Rightarrow> printer_point \<Rightarrow> bool \<times> segmented_spline" where
  "segmented_spline_try_add_point_internal u s p =
    (if int (length (points s)) < get_min_segments s - 1 then (False, s)
     else
       let s1 = s\<lparr>points := points s @ [p]\<rparr>;
           previous_shape_length = original_shape_length s1;
           s2 = s1\<lparr>original_shape_length := original_shape_length s1 + distance p\<rparr>;
           original_spline = current_spline s2;
           fit = try_create_spline u (points s2) (current_spline s2) (original_shape_length s2)
                   (resolution_mm s2) (path_tolerance_percent s2) (min_segments s2)
                   (mm_per_segment s2) (get_xyz_tolerance s2);
           s3 = s2\<lparr>current_spline := snd fit\<rparr>
       in if fst fit then
            (case spline_degeneracy_filter u (spline_length_filter u (False, s3)) of
               (abort_spline, s4) \<Rightarrow>
                 if abort_spline then
                   let s5 = s4\<lparr>current_spline := original_spline\<rparr>;
                       s6 = s5\<lparr>points := butlast (points s5)\<rparr>
                   in (False, s6\<lparr>original_shape_length := previous_shape_length\<rparr>)
                 else
                   (True, if \<not> is_shape s4 then s4\<lparr>is_shape := True\<rparr> else s4))
          else
            let s6 = s3\<lparr>points := butlast (points s3)\<rparr>
            in (False, s6\<lparr>original_shape_length := previous_shape_length\<rparr>))"

text \<open>
  Modelled from the spec: the public \<^verbatim>\<open>try_add_point\<close> of the base class
  \<^verbatim>\<open>segmented_shape\<close> is not among the sources. By 4.4, step 1, while fewer than
  \<^verbatim>\<open>min_segments - 1\<close> points are buffered the candidate is accepted unconditionally by
  buffering it; otherwise (steps 2 to 6) the fit attempt decides, which is
  \<^verbatim>\<open>try_add_point_internal_\<close>. By 4.1 every append adds the stored distance of the point to
  the original shape length.
\<close>

definition segmented_arc_try_add_point ::
  "externals \<Rightarrow> segmented_arc \<Rightarrow> printer_point \<Rightarrow> (bool \<times> segmented_arc) option" where
  "segmented_arc_try_add_point u s p =
    (if int (length (points s)) < get_min_segments s - 1
     then Some (True, s\<lparr>points := points s @ [p],
                        original_shape_length := original_shape_length s + distance p\<rparr>)
     else segmented_arc_try_add_point_internal u s p)"

definition segmented_spline_try_add_point ::
  "externals \<Rightarrow> segmented_spline \<Rightarrow> printer_point \<Rightarrow> bool \<times> segmented_spline" where
  "segmented_spline_try_add_point u s p =
    (if int (length (points s)) < get_min_segments s - 1
     then (True, s\<lparr>points := points s @ [p],
                   original_shape_length := original_shape_length s + distance p\<rparr>)
     else segmented_spline_try_add_point_internal u s p)"

text \<open>
  A caller feeding a sequence of points through \<^verbatim>\<open>try_add_point\<close>.
\<close>

fun arc_add_points :: "externals \<Rightarrow> segmented_arc \<Rightarrow> printer_point list \<Rightarrow> segmented_arc option" where
  "arc_add_points u s [] = Some s"
| "arc_add_points u s (p # ps) =
     (case segmented_arc_try_add_point u s p of
        None \<Rightarrow> None
      | Some (r, s') \<Rightarrow> arc_add_points u s' ps)"

fun spline_add_points ::
  "externals \<Rightarrow> segmented_spline \<Rightarrow> printer_point list \<Rightarrow> segmented_spline" where
  "spline_add_points u s [] = s"
| "spline_add_points u s (p # ps) =
     spline_add_points u (snd (segmented_spline_try_add_point u s p)) ps"

text \<open>
  A caller feeding a sequence of points to one accumulator, whatever each call returns. The
  arc version stops with \<open>None\<close> at a call without defined behaviour.
\<close>

fun arc_feed :: "externals \<Rightarrow> segmented_arc \<Rightarrow> printer_point list \<Rightarrow> segmented_arc option" where
  "arc_feed u s [] = Some s"
| "arc_feed u s (p # ps) =
     (case segmented_arc_try_add_point_internal u s p of
        None \<Rightarrow> None
      | Some (r, s') \<Rightarrow> arc_feed u s' ps)"

fun spline_feed :: "externals \<Rightarrow> segmented_spline \<Rightarrow> printer_point list \<Rightarrow> segmented_spline" where
  "spline_feed u s [] = s"
| "spline_feed u s (p # ps) = spline_feed u (snd (segmented_spline_try_add_point_internal u s p)) ps"

section \<open>Program points of a fit attempt\<close>

text \<open>
  The definitions of this section name what the theorems speak of: the solver call of a fit
  attempt, the accumulator after it, and the condition under which each post-fit filter
  marks the candidate for rejection. They are read off the source lines given with each.
\<close>

text \<open>The solver call of segmented\_arc.cpp, lines 100 to 109, for candidate \<open>p\<close>.\<close>

definition arc_fit :: "externals \<Rightarrow> segmented_arc \<Rightarrow> printer_point \<Rightarrow> bool \<times> arc" where
  "arc_fit u s p =
     try_create_arc u (points s @ [p]) (current_arc s) (original_shape_length s + distance p)
       (max_radius_mm s) (resolution_mm s) (path_tolerance_percent s) (get_xyz_tolerance s)
       (allow_3d_shapes s)"

text \<open>The accumulator at line 111: candidate buffered, length added, fitted arc stored.\<close>

definition arc_candidate :: "externals \<Rightarrow> segmented_arc \<Rightarrow> printer_point \<Rightarrow> segmented_arc" where
  "arc_candidate u s p =
     s\<lparr>points := points s @ [p],
       original_shape_length := original_shape_length s + distance p,
       current_arc := snd (arc_fit u s p)\<rparr>"

text \<open>The condition of line 112.\<close>

definition arc_too_long :: "externals \<Rightarrow> segmented_arc \<Rightarrow> printer_point \<Rightarrow> bool" where
  "arc_too_long u s p \<longleftrightarrow>
     0 < max_gcode_length s \<and>
     max_gcode_length s < segmented_arc_get_gcode_length u (arc_candidate u s p)"

text \<open>The circumference of line 121.\<close>

definition arc_circumference :: "externals \<Rightarrow> segmented_arc \<Rightarrow> printer_point \<Rightarrow> real" where
  "arc_circumference u s p = 2 * PI_DOUBLE u * radius (snd (arc_fit u s p))"

text \<open>The conditions of lines 117, 124 and 128 together.\<close>

definition arc_firmware_rejects :: "externals \<Rightarrow> segmented_arc \<Rightarrow> printer_point \<Rightarrow> bool" where
  "arc_firmware_rejects u s p \<longleftrightarrow>
     0 < min_segments s \<and> 0 < mm_per_segment s \<and>
     \<lfloor>arc_circumference u s p / real_of_int (min_segments s)\<rfloor> < min_segments s \<and>
     \<lfloor>arc_circumference u s p / (original_shape_length s + distance p)\<rfloor> < min_segments s"

text \<open>
  The casts of lines 123 and 127 have defined behaviour: the first quotient fits an
  \<^verbatim>\<open>int\<close> and, when the second is computed, the length is not zero and the quotient fits.
\<close>

definition arc_firmware_defined :: "externals \<Rightarrow> segmented_arc \<Rightarrow> printer_point \<Rightarrow> bool" where
  "arc_firmware_defined u s p \<longleftrightarrow>
     floor_to_int (arc_circumference u s p / real_of_int (min_segments s)) \<noteq> None \<and>
     (\<lfloor>arc_circumference u s p / real_of_int (min_segments s)\<rfloor> < min_segments s \<longrightarrow>
        original_shape_length s + distance p \<noteq> 0 \<and>
        floor_to_int (arc_circumference u s p / (original_shape_length s + distance p)) \<noteq> None)"

text \<open>The conditions of lines 136 and 141.\<close>

definition arc_degenerate :: "externals \<Rightarrow> segmented_arc \<Rightarrow> printer_point \<Rightarrow> bool" where
  "arc_degenerate u s p \<longleftrightarrow>
     is_zero u (get_i (snd (arc_fit u s p))) (get_xyz_tolerance s) \<and>
     is_zero u (get_j (snd (arc_fit u s p))) (get_xyz_tolerance s)
     \<or> length_arc (snd (arc_fit u s p)) < get_xyz_tolerance s"

text \<open>
  The invariant of an accepted arc (spec 3): I and J are not both zero within the tolerance,
  and the length is not below the tolerance.
\<close>

definition accepted_arc_invariant :: "externals \<Rightarrow> segmented_arc \<Rightarrow> bool" where
  "accepted_arc_invariant u s \<longleftrightarrow>
     \<not> (is_zero u (get_i (current_arc s)) (get_xyz_tolerance s) \<and>
        is_zero u (get_j (current_arc s)) (get_xyz_tolerance s)) \<and>
     get_xyz_tolerance s \<le> length_arc (current_arc s)"

text \<open>The solver call of segmented\_spline.cpp, line 90, for candidate \<open>p\<close>.\<close>

definition spline_fit :: "externals \<Rightarrow> segmented_spline \<Rightarrow> printer_point \<Rightarrow> bool \<times> spline" where
  "spline_fit u s p =
     try_create_spline u (points s @ [p]) (current_spline s)
       (original_shape_length s + distance p) (resolution_mm s) (path_tolerance_percent s)
       (min_segments s) (mm_per_segment s) (get_xyz_tolerance s)"

text \<open>The accumulator at line 92 of segmented\_spline.cpp.\<close>

definition spline_candidate ::
  "externals \<Rightarrow> segmented_spline \<Rightarrow> printer_point \<Rightarrow> segmented_spline" where
  "spline_candidate u s p =
     s\<lparr>points := points s @ [p],
       original_shape_length := original_shape_length s + distance p,
       current_spline := snd (spline_fit u s p)\<rparr>"

text \<open>The condition of line 93 of segmented\_spline.cpp.\<close>

definition spline_too_long :: "externals \<Rightarrow> segmented_spline \<Rightarrow> printer_point \<Rightarrow> bool" where
  "spline_too_long u s p \<longleftrightarrow>
     0 < max_gcode_length s \<and>
     max_gcode_length s < segmented_spline_get_gcode_length u (spline_candidate u s p)"

text \<open>The condition of line 107 of segmented\_spline.cpp.\<close>

definition spline_degenerate :: "externals \<Rightarrow> segmented_spline \<Rightarrow> printer_point \<Rightarrow> bool" where
  "spline_degenerate u s p \<longleftrightarrow> length_spline (snd (spline_fit u s p)) < get_xyz_tolerance s"

text \<open>
  The contract of a solver that the caller relies on when the solver fails: the in/out curve
  is left as it was (spec 4.2: the candidate curve is populated on success). After a failed
  solver call the source restores the buffer and the length, not the curve.
\<close>

definition arc_solver_keeps_target :: "externals \<Rightarrow> bool" where
  "arc_solver_keeps_target u \<longleftrightarrow>
     (\<forall>pts a l mr r pt tol a3.
        \<not> fst (try_create_arc u pts a l mr r pt tol a3) \<longrightarrow>
        snd (try_create_arc u pts a l mr r pt tol a3) = a)"

definition spline_solver_keeps_target :: "externals \<Rightarrow> bool" where
  "spline_solver_keeps_target u \<longleftrightarrow>
     (\<forall>pts c l r pt ms mm tol.
        \<not> fst (try_create_spline u pts c l r pt ms mm tol) \<longrightarrow>
        snd (try_create_spline u pts c l r pt ms mm tol) = c)"

text \<open>
  What the length prediction expects of \<^verbatim>\<open>utilities::dtos\<close>: a minus sign for a negative
  value, the digits counted by \<^verbatim>\<open>utilities::get_num_digits\<close>, and a decimal point with \<open>k\<close>
  decimals unless \<open>k = 0\<close> (the feed rate is predicted without a decimal point).
\<close>

definition dtos_length_contract :: "externals \<Rightarrow> bool" where
  "dtos_length_contract u \<longleftrightarrow>
     (\<forall>v k. int (length (dtos u v k)) =
        (if v < 0 then 1 else 0) + get_num_digits u v (int k) + (if k = 0 then 0 else 1 + int k))"

text \<open>A formatted number consists of a sign, digits and a decimal point.\<close>

definition dtos_charset_contract :: "externals \<Rightarrow> bool" where
  "dtos_charset_contract u \<longleftrightarrow> (\<forall>v k. set (dtos u v k) \<subseteq> set ''-.0123456789'')"

text \<open>A feed rate that compares as at least 1 is not negative.\<close>

definition feed_rate_contract :: "externals \<Rightarrow> bool" where
  "feed_rate_contract u \<longleftrightarrow> (\<forall>v. greater_than_or_equal u v 1 \<longrightarrow> 0 \<le> v)"

section \<open>A reference instance of the external collaborators\<close>

text \<open>
  The theorems are stated for every choice of the external collaborators. To evaluate the
  model on concrete accumulators, this section fixes one choice.
\<close>

text \<open>The decimal digits of a natural number, most significant first.\<close>

fun digits_of :: "nat \<Rightarrow> string" where
  "digits_of n =
     (if n < 10 then [''0123456789'' ! n]
      else digits_of (n div 10) @ [''0123456789'' ! (n mod 10)])"

declare digits_of.simps [simp del]

text \<open>The \<open>k\<close> decimal places of the fraction \<open>m / 10 ^ k\<close>, for \<open>m < 10 ^ k\<close>.\<close>

definition decimal_places :: "nat \<Rightarrow> nat \<Rightarrow> string" where
  "decimal_places k m = map (\<lambda>n. ''0123456789'' ! ((m div 10 ^ (k - 1 - n)) mod 10)) [0..<k]"

text \<open>The magnitude of \<open>v\<close> in units of \<open>10 ^ - k\<close>, rounded to the nearest unit.\<close>

definition scaled_magnitude :: "real \<Rightarrow> nat \<Rightarrow> nat" where
  "scaled_magnitude v k = nat \<lfloor>\<bar>v\<bar> * 10 ^ k + 1 / 2\<rfloor>"

text \<open>
  Modelled from the spec: \<^verbatim>\<open>utilities::dtos\<close> and \<^verbatim>\<open>utilities::get_num_digits\<close> are not among
  the sources. By 4.5 a term is written at the configured numeric precision, the feed rate
  with zero decimal places, and the predicted length counts, for each term, a minus sign, the
  digits given by the magnitude of the value and the precision, a decimal point and the
  decimals. \<open>dtos_decimal\<close> writes fixed-point decimal notation with \<open>k\<close> decimals and no
  decimal point when \<open>k = 0\<close>; \<open>num_digits_decimal\<close> counts the digits before the decimal
  point.
\<close>

definition dtos_decimal :: "real \<Rightarrow> nat \<Rightarrow> string" where
  "dtos_decimal v k =
     (if v < 0 then ''-'' else [])
     @ digits_of (scaled_magnitude v k div 10 ^ k)
     @ (if k = 0 then [] else ''.'' @ decimal_places k (scaled_magnitude v k mod 10 ^ k))"

definition num_digits_decimal :: "real \<Rightarrow> int \<Rightarrow> int" where
  "num_digits_decimal v k =
     int (length (digits_of (scaled_magnitude v (nat k) div 10 ^ nat k)))"

text \<open>
  Solvers that answer with a prescribed outcome: success with the curve \<open>a\<close>, or failure
  leaving the in/out curve as it was. They stand for \<^verbatim>\<open>arc::try_create_arc\<close> and
  \<^verbatim>\<open>spline::try_create_spline\<close> when a theorem is evaluated at a concrete input.
\<close>

definition prescribed_arc_solver ::
  "bool \<Rightarrow> arc \<Rightarrow>
   printer_point list \<Rightarrow> arc \<Rightarrow> real \<Rightarrow> real \<Rightarrow> real \<Rightarrow> real \<Rightarrow> real \<Rightarrow> bool \<Rightarrow> bool \<times> arc" where
  "prescribed_arc_solver ok a pts target l mr r pt tol a3 =
     (if ok then (True, a) else (False, target))"

definition prescribed_spline_solver ::
  "bool \<Rightarrow> spline \<Rightarrow>
   printer_point list \<Rightarrow> spline \<Rightarrow> real \<Rightarrow> real \<Rightarrow> real \<Rightarrow> int \<Rightarrow> real \<Rightarrow> real \<Rightarrow> bool \<times> spline" where
  "prescribed_spline_solver ok c pts target l r pt ms mm tol =
     (if ok then (True, c) else (False, target))"


text \<open>
  Modelled from the spec: the comparisons of \<^verbatim>\<open>utilities.h\<close> and the constant
  \<^verbatim>\<open>PI_DOUBLE\<close> are not among the sources. A value is zero when it is within the tolerance
  of zero, two values are equal unless they differ by more than the tolerance, the feed rate
  is compared with 1 exactly, and \<^verbatim>\<open>PI_DOUBLE\<close> is \<open>\<pi>\<close> to fourteen decimals.
\<close>

definition reference_externals :: "bool \<Rightarrow> arc \<Rightarrow> spline \<Rightarrow> externals" where
  "reference_externals ok a c =
     \<lparr>dtos = dtos_decimal,
      get_num_digits = num_digits_decimal,
      is_zero = (\<lambda>v tol. \<bar>v\<bar> \<le> tol),
      is_equal = (\<lambda>v w tol. \<bar>v - w\<bar> \<le> tol),
      greater_than_or_equal = (\<lambda>v w. w \<le> v),
      PI_DOUBLE = 314159265358979 / 100000000000000,
      try_create_arc = prescribed_arc_solver ok a,
      try_create_spline = prescribed_spline_solver ok c\<rparr>"

text \<open>
  Concrete points, curves and accumulators. The distance of a point from its predecessor is
  metadata that the caller supplies with the point; here it is 1 for every point.
\<close>

definition point_at :: "real \<Rightarrow> real \<Rightarrow> real \<Rightarrow> printer_point" where
  "point_at px py pz =
     \<lparr>x = px, y = py, z = pz, e_offset = 0, is_extruder_relative = True, f = 1800,
      distance = 1\<rparr>"

text \<open>An arc of radius 10 about the origin, from (10, 0) to (0, 10).\<close>

definition quarter_arc :: arc where
  "quarter_arc =
     \<lparr>arc.start_point = point_at 10 0 0, end_point = point_at 0 10 0,
      center_x = 0, center_y = 0, radius = 10, angle_radians = 157 / 100,
      length_arc = 157 / 10\<rparr>"

text \<open>An arc whose centre is its start point.\<close>

definition collapsed_arc :: arc where
  "collapsed_arc =
     \<lparr>arc.start_point = point_at 10 0 0, end_point = point_at 0 10 0,
      center_x = 10, center_y = 0, radius = 10, angle_radians = 157 / 100,
      length_arc = 157 / 10\<rparr>"

text \<open>An arc of radius one tenth.\<close>

definition small_arc :: arc where
  "small_arc =
     \<lparr>arc.start_point = point_at (1 / 10) 0 0, end_point = point_at 0 (1 / 10) 0,
      center_x = 0, center_y = 0, radius = 1 / 10, angle_radians = 157 / 100,
      length_arc = 157 / 1000\<rparr>"

text \<open>A spline that rises by one unit in Z.\<close>

definition rising_spline :: spline where
  "rising_spline =
     \<lparr>spline.start_point = point_at 0 0 0, end_point = point_at 10 5 1,
      length_spline = 12\<rparr>"

text \<open>
  An arc accumulator holding two points, with a minimum of three segments, no cap on the
  emitted length and firmware compensation switched off by \<^verbatim>\<open>mm_per_segment = 0\<close>.
\<close>

definition arc_accumulator :: segmented_arc where
  "arc_accumulator =
     \<lparr>points = [point_at 10 0 0, point_at 9 4 0],
      original_shape_length = 2,
      is_shape = False,
      e_relative = 0,
      allow_3d_shapes = False,
      min_segments = 3,
      max_segments = 50,
      mm_per_segment = 0,
      resolution_mm = 1 / 20,
      path_tolerance_percent = 1 / 20,
      max_gcode_length = 0,
      xyz_precision = 3,
      e_precision = 5,
      xyz_tolerance = 1 / 1000,
      num_gcode_length_exceptions = 0,
      num_firmware_compensations = 0,
      current_arc = quarter_arc,
      max_radius_mm = 9999\<rparr>"

text \<open>A spline accumulator with the same buffer and configuration; 3-axis shapes are off.\<close>

definition spline_accumulator :: segmented_spline where
  "spline_accumulator =
     \<lparr>points = [point_at 10 0 0, point_at 9 4 0],
      original_shape_length = 2,
      is_shape = False,
      e_relative = 0,
      allow_3d_shapes = False,
      min_segments = 3,
      max_segments = 50,
      mm_per_segment = 0,
      resolution_mm = 1 / 20,
      path_tolerance_percent = 1 / 20,
      max_gcode_length = 0,
      xyz_precision = 3,
      e_precision = 5,
      xyz_tolerance = 1 / 1000,
      num_gcode_length_exceptions = 0,
      num_firmware_compensations = 0,
      current_spline = rising_spline\<rparr>"



section \<open>Lemmas on the blocks of the fit controller\<close>

lemma arc_length_filter_eq:
  "arc_length_filter u (b, c) =
     (let t = (0 < max_gcode_length c \<and> max_gcode_length c < segmented_arc_get_gcode_length u c)
      in (b \<or> t,
          c\<lparr>num_gcode_length_exceptions :=
              num_gcode_length_exceptions c + (if t then 1 else 0)\<rparr>))"
  by (auto simp add: arc_length_filter_def Let_def)

lemma arc_degeneracy_filter_eq:
  "arc_degeneracy_filter u (b, c) =
     (b \<or> is_zero u (get_i (current_arc c)) (get_xyz_tolerance c) \<and>
           is_zero u (get_j (current_arc c)) (get_xyz_tolerance c)
        \<or> length_arc (current_arc c) < get_xyz_tolerance c, c)"
  by (simp add: arc_degeneracy_filter_def)

lemma arc_firmware_filter_Some:
  assumes "arc_firmware_filter u (b, c) = Some (b', c')"
  shows "b' = (b \<or> (0 < min_segments c \<and> 0 < mm_per_segment c \<and>
            \<lfloor>2 * PI_DOUBLE u * radius (current_arc c) / real_of_int (min_segments c)\<rfloor>
              < min_segments c \<and>
            \<lfloor>2 * PI_DOUBLE u * radius (current_arc c) / original_shape_length c\<rfloor>
              < min_segments c))"
    and "c' = c\<lparr>num_firmware_compensations := num_firmware_compensations c +
            (if 0 < min_segments c \<and> 0 < mm_per_segment c \<and>
                \<lfloor>2 * PI_DOUBLE u * radius (current_arc c) / real_of_int (min_segments c)\<rfloor>
                  < min_segments c \<and>
                \<lfloor>2 * PI_DOUBLE u * radius (current_arc c) / original_shape_length c\<rfloor>
                  < min_segments c
             then 1 else 0)\<rparr>"
  using assms
  by (auto simp add: arc_firmware_filter_def Let_def floor_to_int_def
        split: if_splits option.splits)

lemma arc_firmware_filter_disabled:
  "\<not> (0 < min_segments c \<and> 0 < mm_per_segment c) \<Longrightarrow>
   arc_firmware_filter u (b, c) = Some (b, c)"
  by (auto simp add: arc_firmware_filter_def)

lemma arc_try_early:
  "int (length (points s)) < get_min_segments s - 1 \<Longrightarrow>
   segmented_arc_try_add_point_internal u s p = Some (False, s)"
  by (simp add: segmented_arc_try_add_point_internal_def)

lemma arc_try_solver_failed:
  assumes "\<not> int (length (points s)) < get_min_segments s - 1" "\<not> fst (arc_fit u s p)"
  shows "segmented_arc_try_add_point_internal u s p =
         Some (False, s\<lparr>current_arc := snd (arc_fit u s p)\<rparr>)"
  using assms
  by (simp add: segmented_arc_try_add_point_internal_def arc_fit_def Let_def
        get_xyz_tolerance_def)

lemma arc_try_created:
  assumes "\<not> int (length (points s)) < get_min_segments s - 1" "fst (arc_fit u s p)"
    "segmented_arc_try_add_point_internal u s p = Some (r, s')"
  shows "r = (\<not> arc_too_long u s p \<and> \<not> arc_firmware_rejects u s p \<and> \<not> arc_degenerate u s p)"
    and "s' = (if r then (arc_candidate u s p)\<lparr>is_shape := True\<rparr> else s)
           \<lparr>num_gcode_length_exceptions :=
              num_gcode_length_exceptions s + (if arc_too_long u s p then 1 else 0),
            num_firmware_compensations :=
              num_firmware_compensations s + (if arc_firmware_rejects u s p then 1 else 0)\<rparr>"
proof -
  let ?c = "arc_candidate u s p"
  note defs = segmented_arc_try_add_point_internal_def arc_fit_def Let_def get_xyz_tolerance_def
    arc_candidate_def
  obtain b1 c1 where v1: "arc_length_filter u (False, ?c) = (b1, c1)"
    by (cases "arc_length_filter u (False, ?c)")
  have b1: "b1 = arc_too_long u s p"
    and c1: "c1 = ?c\<lparr>num_gcode_length_exceptions :=
                     num_gcode_length_exceptions s + (if arc_too_long u s p then 1 else 0)\<rparr>"
    using v1 by (auto simp add: arc_length_filter_eq arc_too_long_def arc_candidate_def Let_def)
  obtain b2 c2 where v2: "arc_firmware_filter u (b1, c1) = Some (b2, c2)"
  proof (cases "arc_firmware_filter u (b1, c1)")
    case None
    with assms v1 have False by (simp add: defs)
    then show ?thesis ..
  next
    case (Some v)
    with that show ?thesis by (cases v) auto
  qed
  have b2: "b2 = (arc_too_long u s p \<or> arc_firmware_rejects u s p)"
    using arc_firmware_filter_Some(1)[OF v2]
    by (simp add: b1 c1 arc_firmware_rejects_def arc_candidate_def arc_circumference_def)
  have c2: "c2 = ?c\<lparr>num_gcode_length_exceptions :=
                     num_gcode_length_exceptions s + (if arc_too_long u s p then 1 else 0),
                   num_firmware_compensations :=
                     num_firmware_compensations s
                     + (if arc_firmware_rejects u s p then 1 else 0)\<rparr>"
    using arc_firmware_filter_Some(2)[OF v2]
    by (simp add: b1 c1 arc_firmware_rejects_def arc_candidate_def arc_circumference_def)
  have d: "arc_degeneracy_filter u (b2, c2) = (b2 \<or> arc_degenerate u s p, c2)"
    by (simp add: arc_degeneracy_filter_eq arc_degenerate_def c2 arc_candidate_def
          get_xyz_tolerance_def)
  have res: "Some (r, s') =
      (if b2 \<or> arc_degenerate u s p
       then Some (False, c2\<lparr>current_arc := current_arc s, points := butlast (points c2),
                             original_shape_length := original_shape_length s\<rparr>)
       else Some (True, if \<not> is_shape c2 then c2\<lparr>is_shape := True\<rparr> else c2))"
    using assms v1 v2 d by (auto simp add: defs split: if_splits)
  show "r = (\<not> arc_too_long u s p \<and> \<not> arc_firmware_rejects u s p \<and> \<not> arc_degenerate u s p)"
    using res b2 by (auto split: if_splits)
  show "s' = (if r then (arc_candidate u s p)\<lparr>is_shape := True\<rparr> else s)
           \<lparr>num_gcode_length_exceptions :=
              num_gcode_length_exceptions s + (if arc_too_long u s p then 1 else 0),
            num_firmware_compensations :=
              num_firmware_compensations s + (if arc_firmware_rejects u s p then 1 else 0)\<rparr>"
  proof (cases "b2 \<or> arc_degenerate u s p")
    case True
    with res have "r = False"
      and "s' = c2\<lparr>current_arc := current_arc s, points := butlast (points c2),
                    original_shape_length := original_shape_length s\<rparr>"
      by auto
    then show ?thesis by (simp add: c2 arc_candidate_def)
  next
    case False
    with res have "r = True"
      and "s' = (if \<not> is_shape c2 then c2\<lparr>is_shape := True\<rparr> else c2)"
      by auto
    then show ?thesis by (cases "is_shape s") (simp_all add: c2 arc_candidate_def)
  qed
qed

lemma arc_try_defined_without_firmware:
  assumes "\<not> (0 < min_segments s \<and> 0 < mm_per_segment s)"
  shows "segmented_arc_try_add_point_internal u s p \<noteq> None"
proof -
  obtain b1 c1 where v1: "arc_length_filter u (False, arc_candidate u s p) = (b1, c1)"
    by (cases "arc_length_filter u (False, arc_candidate u s p)")
  then have "min_segments c1 = min_segments s" "mm_per_segment c1 = mm_per_segment s"
    by (auto simp add: arc_length_filter_eq arc_candidate_def Let_def)
  with assms have "arc_firmware_filter u (b1, c1) = Some (b1, c1)"
    by (intro arc_firmware_filter_disabled) simp
  with v1 show ?thesis
    by (auto simp add: segmented_arc_try_add_point_internal_def arc_fit_def Let_def
          get_xyz_tolerance_def arc_candidate_def split_beta)
qed

lemma spline_length_filter_eq:
  "spline_length_filter u (b, c) =
     (let t = (0 < max_gcode_length c \<and>
               max_gcode_length c < segmented_spline_get_gcode_length u c)
      in (b \<or> t,
          c\<lparr>num_gcode_length_exceptions :=
              num_gcode_length_exceptions c + (if t then 1 else 0)\<rparr>))"
  by (auto simp add: spline_length_filter_def Let_def)

lemma spline_degeneracy_filter_eq:
  "spline_degeneracy_filter u (b, c) =
     (b \<or> length_spline (current_spline c) < get_xyz_tolerance c, c)"
  by (simp add: spline_degeneracy_filter_def)

lemma spline_try_early:
  "int (length (points s)) < get_min_segments s - 1 \<Longrightarrow>
   segmented_spline_try_add_point_internal u s p = (False, s)"
  by (simp add: segmented_spline_try_add_point_internal_def)

lemma spline_try_solver_failed:
  assumes "\<not> int (length (points s)) < get_min_segments s - 1" "\<not> fst (spline_fit u s p)"
  shows "segmented_spline_try_add_point_internal u s p =
         (False, s\<lparr>current_spline := snd (spline_fit u s p)\<rparr>)"
  using assms
  by (simp add: segmented_spline_try_add_point_internal_def spline_fit_def Let_def
        get_xyz_tolerance_def)

lemma spline_try_created:
  assumes "\<not> int (length (points s)) < get_min_segments s - 1" "fst (spline_fit u s p)"
    "segmented_spline_try_add_point_internal u s p = (r, s')"
  shows "r = (\<not> spline_too_long u s p \<and> \<not> spline_degenerate u s p)"
    and "s' = (if r then (spline_candidate u s p)\<lparr>is_shape := True\<rparr> else s)
           \<lparr>num_gcode_length_exceptions :=
              num_gcode_length_exceptions s + (if spline_too_long u s p then 1 else 0)\<rparr>"
proof -
  let ?c = "spline_candidate u s p"
  note defs = segmented_spline_try_add_point_internal_def spline_fit_def Let_def
    get_xyz_tolerance_def spline_candidate_def
  obtain b1 c1 where v1: "spline_length_filter u (False, ?c) = (b1, c1)"
    by (cases "spline_length_filter u (False, ?c)")
  have b1: "b1 = spline_too_long u s p"
    and c1: "c1 = ?c\<lparr>num_gcode_length_exceptions :=
                     num_gcode_length_exceptions s
                     + (if spline_too_long u s p then 1 else 0)\<rparr>"
    using v1
    by (auto simp add: spline_length_filter_eq spline_too_long_def spline_candidate_def Let_def)
  have d: "spline_degeneracy_filter u (b1, c1) = (b1 \<or> spline_degenerate u s p, c1)"
    by (simp add: spline_degeneracy_filter_eq spline_degenerate_def c1 spline_candidate_def
          get_xyz_tolerance_def)
  have res: "(r, s') =
      (if b1 \<or> spline_degenerate u s p
       then (False, c1\<lparr>current_spline := current_spline s, points := butlast (points c1),
                        original_shape_length := original_shape_length s\<rparr>)
       else (True, if \<not> is_shape c1 then c1\<lparr>is_shape := True\<rparr> else c1))"
    using assms v1 d by (auto simp add: defs split: if_splits)
  show "r = (\<not> spline_too_long u s p \<and> \<not> spline_degenerate u s p)"
    using res b1 by (auto split: if_splits)
  show "s' = (if r then (spline_candidate u s p)\<lparr>is_shape := True\<rparr> else s)
           \<lparr>num_gcode_length_exceptions :=
              num_gcode_length_exceptions s + (if spline_too_long u s p then 1 else 0)\<rparr>"
  proof (cases "b1 \<or> spline_degenerate u s p")
    case True
    with res have "r = False"
      and "s' = c1\<lparr>current_spline := current_spline s, points := butlast (points c1),
                    original_shape_length := original_shape_length s\<rparr>"
      by auto
    then show ?thesis by (simp add: c1 spline_candidate_def)
  next
    case False
    with res have "r = True"
      and "s' = (if \<not> is_shape c1 then c1\<lparr>is_shape := True\<rparr> else c1)"
      by auto
    then show ?thesis by (cases "is_shape s") (simp_all add: c1 spline_candidate_def)
  qed
qed

lemma arc_fit_failed_keeps:
  "arc_solver_keeps_target u \<Longrightarrow> \<not> fst (arc_fit u s p) \<Longrightarrow> snd (arc_fit u s p) = current_arc s"
  by (simp add: arc_solver_keeps_target_def arc_fit_def)


lemma arc_try_cases:
  assumes "segmented_arc_try_add_point_internal u s p = Some (r, s')"
  obtains
    (early) "int (length (points s)) < get_min_segments s - 1" "r = False" "s' = s"
  | (failed) "\<not> int (length (points s)) < get_min_segments s - 1" "\<not> fst (arc_fit u s p)"
      "r = False" "s' = s\<lparr>current_arc := snd (arc_fit u s p)\<rparr>"
  | (created) "\<not> int (length (points s)) < get_min_segments s - 1" "fst (arc_fit u s p)"
      "r = (\<not> arc_too_long u s p \<and> \<not> arc_firmware_rejects u s p \<and> \<not> arc_degenerate u s p)"
      "s' = (if r then (arc_candidate u s p)\<lparr>is_shape := True\<rparr> else s)
           \<lparr>num_gcode_length_exceptions :=
              num_gcode_length_exceptions s + (if arc_too_long u s p then 1 else 0),
            num_firmware_compensations :=
              num_firmware_compensations s + (if arc_firmware_rejects u s p then 1 else 0)\<rparr>"
proof (cases "int (length (points s)) < get_min_segments s - 1")
  case True
  from arc_try_early[OF True, of u p] assms have "r = False" "s' = s" by simp_all
  with True show ?thesis by (rule early)
next
  case False
  show ?thesis
  proof (cases "fst (arc_fit u s p)")
    case True
    from False True arc_try_created[OF False True assms] show ?thesis by (rule created)
  next
    case nf: False
    from arc_try_solver_failed[OF False nf] assms
    have "r = False" "s' = s\<lparr>current_arc := snd (arc_fit u s p)\<rparr>" by simp_all
    with False nf show ?thesis by (rule failed)
  qed
qed

lemma spline_try_cases:
  assumes "segmented_spline_try_add_point_internal u s p = (r, s')"
  obtains
    (early) "int (length (points s)) < get_min_segments s - 1" "r = False" "s' = s"
  | (failed) "\<not> int (length (points s)) < get_min_segments s - 1" "\<not> fst (spline_fit u s p)"
      "r = False" "s' = s\<lparr>current_spline := snd (spline_fit u s p)\<rparr>"
  | (created) "\<not> int (length (points s)) < get_min_segments s - 1" "fst (spline_fit u s p)"
      "r = (\<not> spline_too_long u s p \<and> \<not> spline_degenerate u s p)"
      "s' = (if r then (spline_candidate u s p)\<lparr>is_shape := True\<rparr> else s)
           \<lparr>num_gcode_length_exceptions :=
              num_gcode_length_exceptions s + (if spline_too_long u s p then 1 else 0)\<rparr>"
proof (cases "int (length (points s)) < get_min_segments s - 1")
  case True
  from spline_try_early[OF True, of u p] assms have "r = False" "s' = s" by simp_all
  with True show ?thesis by (rule early)
next
  case False
  show ?thesis
  proof (cases "fst (spline_fit u s p)")
    case True
    from False True spline_try_created[OF False True assms] show ?thesis by (rule created)
  next
    case nf: False
    from spline_try_solver_failed[OF False nf] assms
    have "r = False" "s' = s\<lparr>current_spline := snd (spline_fit u s p)\<rparr>" by simp_all
    with False nf show ?thesis by (rule failed)
  qed
qed

lemma arc_try_rollback:
  assumes "arc_solver_keeps_target u" "segmented_arc_try_add_point_internal u s p = Some (False, s')"
  shows "s' = s\<lparr>num_gcode_length_exceptions := num_gcode_length_exceptions s',
               num_firmware_compensations := num_firmware_compensations s'\<rparr>"
  using assms(2)
proof (cases rule: arc_try_cases)
  case early
  then show ?thesis by simp
next
  case failed
  with arc_fit_failed_keeps[OF assms(1) failed(2)] show ?thesis by simp
next
  case created
  then show ?thesis by simp
qed


lemma arc_try_is_shape:
  assumes "segmented_arc_try_add_point_internal u s p = Some (r, s')" "is_shape s"
  shows "is_shape s'"
  using assms(1) by (cases rule: arc_try_cases) (simp_all add: assms(2))

lemma spline_try_is_shape:
  assumes "segmented_spline_try_add_point_internal u s p = (r, s')" "is_shape s"
  shows "is_shape s'"
  using assms(1) by (cases rule: spline_try_cases) (simp_all add: assms(2))

lemma arc_feed_is_shape: "is_shape s \<Longrightarrow> arc_feed u s ps = Some s' \<Longrightarrow> is_shape s'"
proof (induction ps arbitrary: s)
  case Nil
  then show ?case by simp
next
  case (Cons p ps)
  from Cons.prems(2) obtain r s1
    where step: "segmented_arc_try_add_point_internal u s p = Some (r, s1)"
      and rest: "arc_feed u s1 ps = Some s'"
    by (auto split: option.splits)
  from arc_try_is_shape[OF step Cons.prems(1)] rest show ?case by (rule Cons.IH)
qed

lemma spline_feed_is_shape: "is_shape s \<Longrightarrow> is_shape (spline_feed u s ps)"
proof (induction ps arbitrary: s)
  case Nil
  then show ?case by simp
next
  case (Cons p ps)
  obtain r s1 where step: "segmented_spline_try_add_point_internal u s p = (r, s1)"
    by (cases "segmented_spline_try_add_point_internal u s p")
  from spline_try_is_shape[OF step Cons.prems] have "is_shape s1" .
  then have "is_shape (spline_feed u s1 ps)" by (rule Cons.IH)
  with step show ?case by simp
qed

lemma arc_try_counters_mono:
  assumes "segmented_arc_try_add_point_internal u s p = Some (r, s')"
  shows "num_gcode_length_exceptions s \<le> num_gcode_length_exceptions s'"
    and "num_firmware_compensations s \<le> num_firmware_compensations s'"
proof -
  show "num_gcode_length_exceptions s \<le> num_gcode_length_exceptions s'"
    using assms by (cases rule: arc_try_cases) simp_all
  show "num_firmware_compensations s \<le> num_firmware_compensations s'"
    using assms by (cases rule: arc_try_cases) simp_all
qed

lemma spline_try_counters_mono:
  assumes "segmented_spline_try_add_point_internal u s p = (r, s')"
  shows "num_gcode_length_exceptions s \<le> num_gcode_length_exceptions s'"
    and "num_firmware_compensations s' = num_firmware_compensations s"
proof -
  show "num_gcode_length_exceptions s \<le> num_gcode_length_exceptions s'"
    using assms by (cases rule: spline_try_cases) simp_all
  show "num_firmware_compensations s' = num_firmware_compensations s"
    using assms by (cases rule: spline_try_cases) (simp_all add: spline_candidate_def)
qed

lemma arc_feed_counters_mono:
  "arc_feed u s ps = Some s' \<Longrightarrow>
   num_gcode_length_exceptions s \<le> num_gcode_length_exceptions s' \<and>
   num_firmware_compensations s \<le> num_firmware_compensations s'"
proof (induction ps arbitrary: s)
  case Nil
  then show ?case by simp
next
  case (Cons p ps)
  from Cons.prems obtain r s1
    where step: "segmented_arc_try_add_point_internal u s p = Some (r, s1)"
      and rest: "arc_feed u s1 ps = Some s'"
    by (auto split: option.splits)
  from arc_try_counters_mono[OF step] Cons.IH[OF rest] show ?case by linarith
qed

lemma spline_feed_counters_mono:
  "num_gcode_length_exceptions s \<le> num_gcode_length_exceptions (spline_feed u s ps) \<and>
   num_firmware_compensations (spline_feed u s ps) = num_firmware_compensations s"
proof (induction ps arbitrary: s)
  case Nil
  then show ?case by simp
next
  case (Cons p ps)
  obtain r s1 where step: "segmented_spline_try_add_point_internal u s p = (r, s1)"
    by (cases "segmented_spline_try_add_point_internal u s p")
  from spline_try_counters_mono[OF step] Cons.IH[of s1] step show ?case by simp
qed

lemma arc_firmware_filter_mm:
  assumes "0 < m" "0 < m'"
  shows "arc_firmware_filter u (b, c\<lparr>mm_per_segment := m'\<rparr>) =
         map_option (\<lambda>(b', c'). (b', c'\<lparr>mm_per_segment := m'\<rparr>))
           (arc_firmware_filter u (b, c\<lparr>mm_per_segment := m\<rparr>))"
  using assms by (simp add: arc_firmware_filter_def Let_def split: option.splits)

lemma arc_gcode_length_mm:
  "segmented_arc_get_gcode_length u (c\<lparr>mm_per_segment := m\<rparr>) = segmented_arc_get_gcode_length u c"
  by (simp add: segmented_arc_get_gcode_length_def get_xyz_tolerance_def get_xyz_precision_def
        get_e_precision_def Let_def split del: if_split cong: if_cong)

lemma arc_length_filter_mm:
  "arc_length_filter u (b, c\<lparr>mm_per_segment := m'\<rparr>) =
     (\<lambda>(b', c'). (b', c'\<lparr>mm_per_segment := m'\<rparr>)) (arc_length_filter u (b, c\<lparr>mm_per_segment := m\<rparr>))"
  by (simp add: arc_length_filter_def arc_gcode_length_mm)

lemma arc_degeneracy_filter_mm:
  "arc_degeneracy_filter u (b, c\<lparr>mm_per_segment := m'\<rparr>) =
     (\<lambda>(b', c'). (b', c'\<lparr>mm_per_segment := m'\<rparr>)) (arc_degeneracy_filter u (b, c\<lparr>mm_per_segment := m\<rparr>))"
  by (simp add: arc_degeneracy_filter_def get_xyz_tolerance_def)

lemma arc_try_mm:
  assumes "0 < m" "0 < m'"
  shows "segmented_arc_try_add_point_internal u (s\<lparr>mm_per_segment := m'\<rparr>) p =
         map_option (\<lambda>(r, s1). (r, s1\<lparr>mm_per_segment := m'\<rparr>))
           (segmented_arc_try_add_point_internal u (s\<lparr>mm_per_segment := m\<rparr>) p)"
proof (cases "int (length (points s)) < get_min_segments s - 1")
  case True
  then show ?thesis
    by (simp add: segmented_arc_try_add_point_internal_def get_min_segments_def)
next
  case False
  let ?fit = "arc_fit u s p"
  have fit: "arc_fit u (s\<lparr>mm_per_segment := k\<rparr>) p = ?fit" for k
    by (simp add: arc_fit_def get_xyz_tolerance_def)
  have att: "\<not> int (length (points (s\<lparr>mm_per_segment := k\<rparr>)))
               < get_min_segments (s\<lparr>mm_per_segment := k\<rparr>) - 1" for k
    using False by (simp add: get_min_segments_def)
  show ?thesis
  proof (cases "fst ?fit")
    case nf: False
    from nf fit have nf': "\<not> fst (arc_fit u (s\<lparr>mm_per_segment := k\<rparr>) p)" for k by simp
    from arc_try_solver_failed[OF att nf', of m] arc_try_solver_failed[OF att nf', of m'] fit
    show ?thesis by simp
  next
    case True
    let ?c = "arc_candidate u s p"
    have cand: "arc_candidate u (s\<lparr>mm_per_segment := k\<rparr>) p = ?c\<lparr>mm_per_segment := k\<rparr>" for k
      by (simp add: arc_candidate_def fit)
    have unf: "segmented_arc_try_add_point_internal u (s\<lparr>mm_per_segment := k\<rparr>) p =
       (case arc_firmware_filter u
               (arc_length_filter u (False, arc_candidate u (s\<lparr>mm_per_segment := k\<rparr>) p)) of
          None \<Rightarrow> None
        | Some v \<Rightarrow>
           (case arc_degeneracy_filter u v of (abort_arc, s4) \<Rightarrow>
              if abort_arc then
                Some (False, s4\<lparr>current_arc := current_arc s, points := butlast (points s4),
                               original_shape_length := original_shape_length s\<rparr>)
              else Some (True, if \<not> is_shape s4 then s4\<lparr>is_shape := True\<rparr> else s4)))" for k
      using att[of k] True
      by (simp add: segmented_arc_try_add_point_internal_def Let_def arc_candidate_def arc_fit_def
            get_xyz_tolerance_def get_min_segments_def split del: if_split
            cong: option.case_cong prod.case_cong if_cong)
    obtain b1 c1 where l: "arc_length_filter u (False, ?c\<lparr>mm_per_segment := m\<rparr>) = (b1, c1)"
      by (cases "arc_length_filter u (False, ?c\<lparr>mm_per_segment := m\<rparr>)")
    then have c1m: "mm_per_segment c1 = m"
      by (auto simp add: arc_length_filter_eq Let_def)
    then have c1: "c1\<lparr>mm_per_segment := m\<rparr> = c1" by simp
    from l have l': "arc_length_filter u (False, ?c\<lparr>mm_per_segment := m'\<rparr>)
         = (b1, c1\<lparr>mm_per_segment := m'\<rparr>)"
      by (simp add: arc_length_filter_mm[where u = u and b = False and c = ?c and m = m and m' = m'] cand)
    show ?thesis
    proof (cases "arc_firmware_filter u (b1, c1)")
      case None
      with arc_firmware_filter_mm[OF assms, where u = u and b = b1 and c = c1] c1 l l' show ?thesis
        by (simp add: unf cand)
    next
      case (Some v)
      obtain b2 c2 where v: "v = (b2, c2)" by (cases v)
      from Some v arc_firmware_filter_mm[OF assms, where u = u and b = b1 and c = c1] c1
      have f': "arc_firmware_filter u (b1, c1\<lparr>mm_per_segment := m'\<rparr>)
                = Some (b2, c2\<lparr>mm_per_segment := m'\<rparr>)" by simp
      obtain b3 c3 where d: "arc_degeneracy_filter u (b2, c2) = (b3, c3)"
        by (cases "arc_degeneracy_filter u (b2, c2)")
      then have d': "arc_degeneracy_filter u (b2, c2\<lparr>mm_per_segment := m'\<rparr>)
           = (b3, c3\<lparr>mm_per_segment := m'\<rparr>)"
        by (auto simp add: arc_degeneracy_filter_eq get_xyz_tolerance_def)
      from Some v l l' f' d d' show ?thesis
        by (simp add: unf cand)
    qed
  qed
qed

lemma arc_try_accepted_invariant:
  assumes "segmented_arc_try_add_point_internal u s p = Some (True, s')"
  shows "accepted_arc_invariant u s'"
  using assms
proof (cases rule: arc_try_cases)
  case created
  from created(3) have nd: "\<not> arc_degenerate u s p" by simp
  from created(3,4) have "current_arc s' = snd (arc_fit u s p)"
    "get_xyz_tolerance s' = get_xyz_tolerance s"
    by (simp_all add: arc_candidate_def get_xyz_tolerance_def)
  with nd show ?thesis by (auto simp add: arc_degenerate_def accepted_arc_invariant_def)
qed simp_all

lemma arc_try_keeps_invariant:
  assumes k: "arc_solver_keeps_target u"
    and r: "segmented_arc_try_add_point_internal u s p = Some (r, s')"
    and i: "is_shape s \<longrightarrow> accepted_arc_invariant u s"
  shows "is_shape s' \<longrightarrow> accepted_arc_invariant u s'"
proof (cases r)
  case True
  with r have "segmented_arc_try_add_point_internal u s p = Some (True, s')" by simp
  from arc_try_accepted_invariant[OF this] show ?thesis by simp
next
  case False
  with r have "segmented_arc_try_add_point_internal u s p = Some (False, s')" by simp
  from arc_try_rollback[OF k this]
  have eq: "s' = s\<lparr>num_gcode_length_exceptions := num_gcode_length_exceptions s',
                    num_firmware_compensations := num_firmware_compensations s'\<rparr>" .
  have "is_shape s' = is_shape s" by (subst eq) simp
  moreover have "accepted_arc_invariant u s' = accepted_arc_invariant u s"
    by (subst eq) (simp add: accepted_arc_invariant_def get_xyz_tolerance_def)
  ultimately show ?thesis using i by simp
qed

lemma arc_feed_keeps_invariant:
  "arc_solver_keeps_target u \<Longrightarrow> is_shape s \<longrightarrow> accepted_arc_invariant u s \<Longrightarrow>
   arc_feed u s ps = Some s' \<Longrightarrow> is_shape s' \<longrightarrow> accepted_arc_invariant u s'"
proof (induction ps arbitrary: s)
  case Nil
  then show ?case by simp
next
  case (Cons p ps)
  from Cons.prems(3) obtain r s1
    where step: "segmented_arc_try_add_point_internal u s p = Some (r, s1)"
      and rest: "arc_feed u s1 ps = Some s'"
    by (auto split: option.splits)
  from arc_try_keeps_invariant[OF Cons.prems(1) step Cons.prems(2)]
  have "is_shape s1 \<longrightarrow> accepted_arc_invariant u s1" .
  from Cons.IH[OF Cons.prems(1) this rest] show ?case .
qed

lemma arc_firmware_filter_defined:
  assumes "0 < min_segments c" "0 < mm_per_segment c"
    "floor_to_int (2 * PI_DOUBLE u * radius (current_arc c) / real_of_int (min_segments c)) \<noteq> None"
    "\<lfloor>2 * PI_DOUBLE u * radius (current_arc c) / real_of_int (min_segments c)\<rfloor> < min_segments c \<longrightarrow>
        original_shape_length c \<noteq> 0 \<and>
        floor_to_int (2 * PI_DOUBLE u * radius (current_arc c) / original_shape_length c) \<noteq> None"
  shows "\<exists>v. arc_firmware_filter u (b, c) = Some v"
  using assms
  by (auto simp add: arc_firmware_filter_def Let_def floor_to_int_def split: if_splits)

lemma arc_try_defined_with_firmware:
  assumes g: "0 < min_segments s" "0 < mm_per_segment s"
    and d: "arc_firmware_defined u s p"
  shows "\<exists>v. segmented_arc_try_add_point_internal u s p = Some v"
proof (cases "int (length (points s)) < get_min_segments s - 1")
  case True
  then show ?thesis by (auto simp add: arc_try_early)
next
  case False
  show ?thesis
  proof (cases "fst (arc_fit u s p)")
    case nf: False
    from arc_try_solver_failed[OF False nf] show ?thesis by auto
  next
    case True
    obtain b1 c1 where v1: "arc_length_filter u (False, arc_candidate u s p) = (b1, c1)"
      by (cases "arc_length_filter u (False, arc_candidate u s p)")
    then have c1: "min_segments c1 = min_segments s" "mm_per_segment c1 = mm_per_segment s"
      "current_arc c1 = snd (arc_fit u s p)"
      "original_shape_length c1 = original_shape_length s + distance p"
      by (auto simp add: arc_length_filter_eq arc_candidate_def Let_def)
    from g d c1 have "\<exists>v. arc_firmware_filter u (b1, c1) = Some v"
      by (intro arc_firmware_filter_defined)
         (simp_all add: arc_firmware_defined_def arc_circumference_def)
    then obtain v where "arc_firmware_filter u (b1, c1) = Some v" ..
    with v1 False True show ?thesis
      by (auto simp add: segmented_arc_try_add_point_internal_def arc_fit_def Let_def
            get_xyz_tolerance_def arc_candidate_def split_beta)
  qed
qed

lemma arc_add_points_buffers:
  "int (length (points s) + length ps) \<le> get_min_segments s - 1 \<Longrightarrow>
   arc_add_points u s ps =
     Some (s\<lparr>points := points s @ ps,
             original_shape_length := original_shape_length s + sum_list (map distance ps)\<rparr>)"
proof (induction ps arbitrary: s)
  case Nil
  then show ?case by simp
next
  case (Cons p ps)
  let ?s1 = "s\<lparr>points := points s @ [p],
               original_shape_length := original_shape_length s + distance p\<rparr>"
  from Cons.prems have step: "segmented_arc_try_add_point u s p = Some (True, ?s1)"
    by (simp add: segmented_arc_try_add_point_def)
  from Cons.prems have "int (length (points ?s1) + length ps) \<le> get_min_segments ?s1 - 1"
    by (simp add: get_min_segments_def)
  from Cons.IH[OF this] step show ?case by (simp add: add.assoc)
qed

lemma spline_add_points_buffers:
  "int (length (points s) + length ps) \<le> get_min_segments s - 1 \<Longrightarrow>
   spline_add_points u s ps =
     s\<lparr>points := points s @ ps,
       original_shape_length := original_shape_length s + sum_list (map distance ps)\<rparr>"
proof (induction ps arbitrary: s)
  case Nil
  then show ?case by simp
next
  case (Cons p ps)
  let ?s1 = "s\<lparr>points := points s @ [p],
               original_shape_length := original_shape_length s + distance p\<rparr>"
  from Cons.prems have step: "segmented_spline_try_add_point u s p = (True, ?s1)"
    by (simp add: segmented_spline_try_add_point_def)
  from Cons.prems have "int (length (points ?s1) + length ps) \<le> get_min_segments ?s1 - 1"
    by (simp add: get_min_segments_def)
  from Cons.IH[OF this] step show ?case by (simp add: add.assoc)
qed

section \<open>Lemmas on the command emitter\<close>

lemma dtos_length:
  "dtos_length_contract u \<Longrightarrow>
   int (length (dtos u v k)) =
     (if v < 0 then 1 else 0) + get_num_digits u v (int k) + (if k = 0 then 0 else 1 + int k)"
  by (simp add: dtos_length_contract_def)

lemma dtos_no_letter: "dtos_charset_contract u \<Longrightarrow> CHR ''Z'' \<notin> set (dtos u v k)"
  by (auto simp add: dtos_charset_contract_def)

text \<open>
  For an arc accumulator with positive precisions the prediction is exact, whatever optional
  terms are present and whatever the signs of the values.
\<close>

lemma arc_gcode_length_exact:
  assumes c: "dtos_length_contract u" and fc: "feed_rate_contract u"
    and kx: "0 < get_xyz_precision s" and ke: "e_relative s \<noteq> 0 \<longrightarrow> 0 < get_e_precision s"
  shows "segmented_arc_get_gcode_length u s = int (length (segmented_arc_get_gcode u s))"
proof -
  define a where "a = current_arc s"
  define ev where "ev = (if is_extruder_relative (arc.end_point a) then e_relative s
                  else e_offset (arc.end_point a))"
  define fv where "fv = (if f (arc.start_point a) = f (arc.end_point a) then 0
                  else f (arc.end_point a))"
  define he where "he = (e_relative s \<noteq> 0)"
  define hf where "hf = greater_than_or_equal u fv 1"
  define hz where "hz = (allow_3d_shapes s \<and>
                  \<not> is_equal u (z (arc.start_point a)) (z (arc.end_point a)) (get_xyz_tolerance s))"
  define k where "k = get_xyz_precision s"
  define j where "j = get_e_precision s"
  have fr: "hf \<Longrightarrow> \<not> fv < 0"
    using fc by (fastforce simp add: feed_rate_contract_def hf_def)
  have G: "segmented_arc_get_gcode u s =
        (if angle_radians a < 0 then ''G2'' else ''G3'')
        @ '' X'' @ dtos u (x (arc.end_point a)) k
        @ '' Y'' @ dtos u (y (arc.end_point a)) k
        @ (if hz then '' Z'' @ dtos u (z (arc.end_point a)) k else [])
        @ '' I'' @ dtos u (get_i a) k
        @ '' J'' @ dtos u (get_j a) k
        @ (if he then '' E'' @ dtos u ev j else [])
        @ (if hf then '' F'' @ dtos u fv 0 else [])"
    unfolding segmented_arc_get_gcode_def Let_def a_def ev_def fv_def he_def hf_def hz_def
      k_def j_def
    by (rule refl)
  have P: "segmented_arc_get_gcode_length u s =
     2 + (4 + (if hz then 1 else 0) + (if he then 1 else 0) + (if hf then 1 else 0))
       + (4 + (if hz then 1 else 0) + (if he then 1 else 0))
       + (get_num_digits u (x (arc.end_point a)) (int k)
           + get_num_digits u (y (arc.end_point a)) (int k)
           + (if hz then get_num_digits u (z (arc.end_point a)) (int k) else 0)
           + (if he then get_num_digits u ev (int j) else 0)
           + get_num_digits u (get_i a) (int k)
           + get_num_digits u (get_j a) (int k)
           + (if hf then get_num_digits u fv 0 else 0))
       + ((if x (arc.end_point a) < 0 then 1 else 0)
           + (if y (arc.end_point a) < 0 then 1 else 0)
           + (if get_i a < 0 then 1 else 0)
           + (if get_j a < 0 then 1 else 0)
           + (if he \<and> ev < 0 then 1 else 0)
           + (if hz \<and> z (arc.end_point a) < 0 then 1 else 0))
       + (int k * (4 + (if hz then 1 else 0)) + int j * (if he then 1 else 0))
       + (4 + (if he then 1 else 0) + (if hz then 1 else 0) + (if hf then 1 else 0))"
    unfolding segmented_arc_get_gcode_length_def Let_def a_def ev_def fv_def he_def hf_def
      hz_def k_def j_def
    by (rule refl)
  have k0: "k \<noteq> 0" using kx by (simp add: k_def)
  have j0: "he \<Longrightarrow> j \<noteq> 0" using ke by (simp add: j_def he_def)
  have two: "int (length (if angle_radians a < 0 then ''G2'' else ''G3'')) = 2" by simp
  show ?thesis
    unfolding G P
    by (cases hz; cases he; cases hf)
       (simp_all add: dtos_length[OF c] two k0 j0 fr algebra_simps split del: if_split)
qed

text \<open>
  For a spline accumulator the prediction exceeds the length of the command by the terms I,
  J, P and Q, which \<^verbatim>\<open>get_gcode_length\<close> counts and \<^verbatim>\<open>get_gcode\<close> does not write.
\<close>

lemma spline_gcode_length_overcount:
  assumes c: "dtos_length_contract u" and fc: "feed_rate_contract u"
    and kx: "0 < get_xyz_precision s" and ke: "e_relative s \<noteq> 0 \<longrightarrow> 0 < get_e_precision s"
  shows "segmented_spline_get_gcode_length u s =
         int (length (segmented_spline_get_gcode u s))
         + 8 + 2 * int (get_xyz_precision s)
         + 4 * get_num_digits u 0 (int (get_xyz_precision s))"
proof -
  define a where "a = current_spline s"
  define ev where "ev = (if is_extruder_relative (spline.end_point a) then e_relative s
                  else e_offset (spline.end_point a))"
  define fv where "fv = (if f (spline.start_point a) = f (spline.end_point a) then 0
                  else f (spline.end_point a))"
  define he where "he = (e_relative s \<noteq> 0)"
  define hf where "hf = greater_than_or_equal u fv 1"
  define hz where "hz = (\<not> is_equal u (z (spline.start_point a)) (z (spline.end_point a))
                            (get_xyz_tolerance s))"
  define k where "k = get_xyz_precision s"
  define j where "j = get_e_precision s"
  have fr: "hf \<Longrightarrow> \<not> fv < 0"
    using fc by (fastforce simp add: feed_rate_contract_def hf_def)
  have G: "segmented_spline_get_gcode u s =
        ''G5''
        @ '' X'' @ dtos u (x (spline.end_point a)) k
        @ '' Y'' @ dtos u (y (spline.end_point a)) k
        @ (if hz then '' Z'' @ dtos u (z (spline.end_point a)) k else [])
        @ (if he then '' E'' @ dtos u ev j else [])
        @ (if hf then '' F'' @ dtos u fv 0 else [])"
    unfolding segmented_spline_get_gcode_def Let_def a_def ev_def fv_def he_def hf_def hz_def
      k_def j_def
    by (rule refl)
  have P: "segmented_spline_get_gcode_length u s =
     2 + (4 + (if hz then 1 else 0) + (if he then 1 else 0) + (if hf then 1 else 0))
       + (4 + (if hz then 1 else 0) + (if he then 1 else 0))
       + (get_num_digits u (x (spline.end_point a)) (int k)
           + get_num_digits u (y (spline.end_point a)) (int k)
           + (if hz then get_num_digits u (z (spline.end_point a)) (int k) else 0)
           + (if he then get_num_digits u ev (int j) else 0)
           + get_num_digits u 0 (int k)
           + get_num_digits u 0 (int k)
           + get_num_digits u 0 (int k)
           + get_num_digits u 0 (int k)
           + (if hf then get_num_digits u fv 0 else 0))
       + ((if x (spline.end_point a) < 0 then 1 else 0)
           + (if y (spline.end_point a) < 0 then 1 else 0)
           + (if (0 :: real) < 0 then 1 else 0)
           + (if (0 :: real) < 0 then 1 else 0)
           + (if (0 :: real) < 0 then 1 else 0)
           + (if (0 :: real) < 0 then 1 else 0)
           + (if he \<and> ev < 0 then 1 else 0)
           + (if hz \<and> z (spline.end_point a) < 0 then 1 else 0))
       + (int k * (4 + (if hz then 1 else 0)) + int j * (if he then 1 else 0))
       + (6 + (if he then 1 else 0) + (if hz then 1 else 0) + (if hf then 1 else 0))"
    unfolding segmented_spline_get_gcode_length_def Let_def a_def ev_def fv_def he_def hf_def
      hz_def k_def j_def
    by (rule refl)
  have k0: "k \<noteq> 0" using kx by (simp add: k_def)
  have j0: "he \<Longrightarrow> j \<noteq> 0" using ke by (simp add: j_def he_def)
  show ?thesis
    unfolding G P k_def[symmetric]
    by (cases hz; cases he; cases hf)
       (simp_all add: dtos_length[OF c] k0 j0 fr algebra_simps split del: if_split)
qed

text \<open>
  The letter Z occurs in a command only in a Z term, since a formatted number holds no
  letter. An arc command carries the term iff 3-axis shapes are enabled and the Z of the end
  point is not equal to the Z of the start point; a spline command carries it iff the two
  are not equal.
\<close>

lemma arc_z_term_iff:
  "dtos_charset_contract u \<Longrightarrow>
   CHR ''Z'' \<in> set (segmented_arc_get_gcode u s) \<longleftrightarrow>
     allow_3d_shapes s \<and>
     \<not> is_equal u (z (arc.start_point (current_arc s))) (z (arc.end_point (current_arc s)))
         (get_xyz_tolerance s)"
  by (simp add: segmented_arc_get_gcode_def Let_def dtos_no_letter)

lemma spline_z_term_iff:
  "dtos_charset_contract u \<Longrightarrow>
   CHR ''Z'' \<in> set (segmented_spline_get_gcode u t) \<longleftrightarrow>
     \<not> is_equal u (z (spline.start_point (current_spline t)))
         (z (spline.end_point (current_spline t))) (get_xyz_tolerance t)"
  by (simp add: segmented_spline_get_gcode_def Let_def dtos_no_letter)

text \<open>
  \<^verbatim>\<open>segmented_spline.cpp\<close> never reads \<^verbatim>\<open>allow_3d_shapes_\<close>: neither the command, nor the
  predicted length, nor the outcome of \<^verbatim>\<open>try_add_point_internal_\<close> depends on it, for any
  solver. Every spline accumulator that can be reached with 3-axis shapes enabled can be
  reached with them disabled.
\<close>

lemma spline_gcode_allow_3d:
  "segmented_spline_get_gcode u (t\<lparr>allow_3d_shapes := b\<rparr>) = segmented_spline_get_gcode u t"
  by (simp add: segmented_spline_get_gcode_def get_xyz_tolerance_def get_xyz_precision_def
        get_e_precision_def Let_def split del: if_split cong: if_cong)

lemma spline_gcode_length_allow_3d:
  "segmented_spline_get_gcode_length u (t\<lparr>allow_3d_shapes := b\<rparr>)
   = segmented_spline_get_gcode_length u t"
  by (simp add: segmented_spline_get_gcode_length_def get_xyz_tolerance_def
        get_xyz_precision_def get_e_precision_def Let_def split del: if_split cong: if_cong)

lemma spline_try_allow_3d:
  "segmented_spline_try_add_point_internal u (t\<lparr>allow_3d_shapes := b\<rparr>) p =
     (\<lambda>(r, t'). (r, t'\<lparr>allow_3d_shapes := b\<rparr>))
       (segmented_spline_try_add_point_internal u t p)"
proof -
  let ?tb = "t\<lparr>allow_3d_shapes := b\<rparr>"
  obtain r t' where res: "segmented_spline_try_add_point_internal u t p = (r, t')"
    by (cases "segmented_spline_try_add_point_internal u t p")
  obtain q tb' where resb: "segmented_spline_try_add_point_internal u ?tb p = (q, tb')"
    by (cases "segmented_spline_try_add_point_internal u ?tb p")
  have fit: "spline_fit u ?tb p = spline_fit u t p"
    by (simp add: spline_fit_def get_xyz_tolerance_def)
  have cand: "spline_candidate u ?tb p = (spline_candidate u t p)\<lparr>allow_3d_shapes := b\<rparr>"
    by (simp add: spline_candidate_def fit)
  have long: "spline_too_long u ?tb p = spline_too_long u t p"
    by (simp add: spline_too_long_def cand spline_gcode_length_allow_3d)
  have deg: "spline_degenerate u ?tb p = spline_degenerate u t p"
    by (simp add: spline_degenerate_def fit get_xyz_tolerance_def)
  have early: "(int (length (points ?tb)) < get_min_segments ?tb - 1)
               = (int (length (points t)) < get_min_segments t - 1)"
    by (simp add: get_min_segments_def)
  have "q = r \<and> tb' = t'\<lparr>allow_3d_shapes := b\<rparr>"
    using res
  proof (cases rule: spline_try_cases)
    case early
    with resb spline_try_early[of ?tb u p] show ?thesis by (simp add: get_min_segments_def)
  next
    case failed
    from failed(1,2) have a: "\<not> int (length (points ?tb)) < get_min_segments ?tb - 1"
      and f: "\<not> fst (spline_fit u ?tb p)"
      by (simp_all add: fit get_min_segments_def)
    from spline_try_solver_failed[OF a f] resb failed show ?thesis by (simp add: fit)
  next
    case created
    from created(1,2) have a: "\<not> int (length (points ?tb)) < get_min_segments ?tb - 1"
      and f: "fst (spline_fit u ?tb p)"
      by (simp_all add: fit get_min_segments_def)
    from spline_try_created[OF a f resb] created show ?thesis
      by (simp add: long deg cand)
  qed
  with res resb show ?thesis by simp
qed

section \<open>Lemmas on the reference instance\<close>

lemma digit_in: "n < 10 \<Longrightarrow> ''0123456789'' ! n \<in> set ''0123456789''"
  by (rule nth_mem) simp

lemma digits_of_charset: "set (digits_of n) \<subseteq> set ''0123456789''"
proof (induction n rule: digits_of.induct)
  case (1 n)
  show ?case
  proof (cases "n < 10")
    case True
    with digit_in[of n] show ?thesis by (subst digits_of.simps) simp
  next
    case False
    have "n mod 10 < 10" by simp
    from digit_in[OF this] 1[OF False] False show ?thesis
      by (subst digits_of.simps) simp
  qed
qed

lemma decimal_places_charset: "set (decimal_places k m) \<subseteq> set ''0123456789''"
proof -
  have "\<And>j. ''0123456789'' ! (j mod 10) \<in> set ''0123456789''"
    by (rule digit_in) simp
  then show ?thesis unfolding decimal_places_def by auto
qed

lemma length_decimal_places: "length (decimal_places k m) = k"
  by (simp add: decimal_places_def)

lemma dtos_decimal_charset: "set (dtos_decimal v k) \<subseteq> set ''-.0123456789''"
proof -
  have sub: "set ''0123456789'' \<subseteq> set ''-.0123456789''" by simp
  have d: "set (digits_of n) \<subseteq> set ''-.0123456789''" for n
    using digits_of_charset[of n] sub by (rule subset_trans)
  have e: "set (decimal_places j m) \<subseteq> set ''-.0123456789''" for j m
    using decimal_places_charset[of j m] sub by (rule subset_trans)
  have s: "set (if v < 0 then ''-'' else []) \<subseteq> set ''-.0123456789''"
    by (cases "v < 0") simp_all
  have t: "set (if k = 0 then [] else ''.'' @ decimal_places k m) \<subseteq> set ''-.0123456789''"
    for m
    using e[of k m] by (cases "k = 0") simp_all
  show ?thesis
    unfolding dtos_decimal_def set_append using s d t by (intro Un_least)
qed

lemma reference_dtos_length: "dtos_length_contract (reference_externals ok a c)"
  by (simp add: dtos_length_contract_def reference_externals_def dtos_decimal_def
        num_digits_decimal_def length_decimal_places)

lemma reference_dtos_charset: "dtos_charset_contract (reference_externals ok a c)"
  unfolding dtos_charset_contract_def using dtos_decimal_charset
  by (simp add: reference_externals_def)

lemma reference_feed_rate: "feed_rate_contract (reference_externals ok a c)"
  by (simp add: feed_rate_contract_def reference_externals_def)

lemma reference_arc_solver: "arc_solver_keeps_target (reference_externals ok a c)"
  by (simp add: arc_solver_keeps_target_def reference_externals_def prescribed_arc_solver_def)

lemma reference_spline_solver: "spline_solver_keeps_target (reference_externals ok a c)"
  by (simp add: spline_solver_keeps_target_def reference_externals_def
        prescribed_spline_solver_def)

lemmas emitter_defs =
  segmented_arc_get_gcode_def segmented_arc_get_gcode_length_def
  segmented_spline_get_gcode_def segmented_spline_get_gcode_length_def
  get_xyz_tolerance_def get_xyz_precision_def get_e_precision_def get_i_def get_j_def

lemmas reference_defs =
  reference_externals_def prescribed_arc_solver_def prescribed_spline_solver_def
  dtos_decimal_def num_digits_decimal_def scaled_magnitude_def decimal_places_def
  digits_of.simps upt_rec

lemmas example_defs =
  arc_accumulator_def spline_accumulator_def quarter_arc_def collapsed_arc_def small_arc_def
  rising_spline_def point_at_def

lemmas controller_defs =
  segmented_arc_try_add_point_internal_def segmented_spline_try_add_point_internal_def
  arc_length_filter_def arc_firmware_filter_def arc_degeneracy_filter_def
  spline_length_filter_def spline_degeneracy_filter_def floor_to_int_def get_min_segments_def
  Let_def

lemmas program_point_defs =
  arc_fit_def arc_candidate_def arc_too_long_def arc_circumference_def
  arc_firmware_rejects_def arc_degenerate_def spline_fit_def spline_candidate_def
  spline_too_long_def spline_degenerate_def

section \<open>The claims\<close>

subsection \<open>C1: the predicted length against the emitted command\<close>

text \<open>
  C1 states that \<^verbatim>\<open>get_gcode_length()\<close> equals the length of the string returned by
  \<^verbatim>\<open>get_gcode()\<close> for every arc and spline accumulator. For arcs this is
  \<open>arc_gcode_length_exact\<close>. For splines it fails: on the spline accumulator below, with the
  end point (10, 5, 1), precision 3 and no extrusion or feed-rate term, the command is
  \<^verbatim>\<open>G5 X10.000 Y5.000 Z1.000\<close>, of 24 characters, and the predicted length is 42.
\<close>

theorem spline_gcode_length_mismatch:
  "segmented_spline_get_gcode (reference_externals True quarter_arc rising_spline)
     (spline_accumulator\<lparr>allow_3d_shapes := True\<rparr>) = ''G5 X10.000 Y5.000 Z1.000''
   \<and> length ''G5 X10.000 Y5.000 Z1.000'' = 24
   \<and> segmented_spline_get_gcode_length (reference_externals True quarter_arc rising_spline)
       (spline_accumulator\<lparr>allow_3d_shapes := True\<rparr>) = 42"
  by (simp add: emitter_defs reference_defs example_defs)

subsection \<open>C2: what a rejected point leaves behind\<close>




subsection \<open>C3: firmware compensation\<close>

text \<open>
  C3 as stated: for every arc fit attempt that passes the solver, the firmware-compensation
  filter rejects the arc iff floor(circumference / min\_segments) and
  floor(circumference / original\_shape\_length) are both below \<^verbatim>\<open>min_segments\<close>.
  Counterexample: with \<^verbatim>\<open>min_segments = 3\<close> and \<^verbatim>\<open>mm_per_segment = 0\<close>, a fitted arc of
  radius 0.1 has both quotients below 3 (they are 0), yet the point is accepted and the
  firmware-compensation counter stays as it was.
\<close>

theorem firmware_compensation_needs_guard_counterexample:
  "fst (arc_fit (reference_externals True small_arc rising_spline) arc_accumulator
          (point_at 0 10 0))
   \<and> \<lfloor>2 * PI_DOUBLE (reference_externals True small_arc rising_spline)
         * radius (snd (arc_fit (reference_externals True small_arc rising_spline)
                          arc_accumulator (point_at 0 10 0)))
       / real_of_int (min_segments arc_accumulator)\<rfloor> < min_segments arc_accumulator
   \<and> \<lfloor>2 * PI_DOUBLE (reference_externals True small_arc rising_spline)
         * radius (snd (arc_fit (reference_externals True small_arc rising_spline)
                          arc_accumulator (point_at 0 10 0)))
       / (original_shape_length arc_accumulator + distance (point_at 0 10 0))\<rfloor>
       < min_segments arc_accumulator
   \<and> segmented_arc_try_add_point_internal (reference_externals True small_arc rising_spline)
        arc_accumulator (point_at 0 10 0)
       = Some (True, arc_accumulator
           \<lparr>points := [point_at 10 0 0, point_at 9 4 0, point_at 0 10 0],
            original_shape_length := 3, is_shape := True, current_arc := small_arc\<rparr>)
   \<and> num_firmware_compensations (arc_accumulator
           \<lparr>points := [point_at 10 0 0, point_at 9 4 0, point_at 0 10 0],
            original_shape_length := 3, is_shape := True, current_arc := small_arc\<rparr>)
       = num_firmware_compensations arc_accumulator"
  by (simp add: controller_defs emitter_defs reference_defs example_defs program_point_defs)

text \<open>
  C3 as amended: for every arc fit attempt that passes the solver, when \<^verbatim>\<open>min_segments\<close> and
  \<^verbatim>\<open>mm_per_segment\<close> are both positive, the firmware-compensation counter is incremented (by
  one) iff floor(circumference / min\_segments) and
  floor(circumference / original\_shape\_length) are both below \<^verbatim>\<open>min_segments\<close>, and then
  the call returns false; when either is not positive the counter is unchanged. The counter
  is never changed by a spline accumulator. The original shape length is the one that
  includes the candidate, and the circumference is that of the fitted arc.
\<close>

theorem firmware_compensation_filter:
  "(\<not> int (length (points s)) < get_min_segments s - 1 \<longrightarrow> fst (arc_fit u s p) \<longrightarrow>
      segmented_arc_try_add_point_internal u s p = Some (r, s') \<longrightarrow>
        (0 < min_segments s \<and> 0 < mm_per_segment s \<longrightarrow>
           (num_firmware_compensations s' = num_firmware_compensations s + 1 \<longleftrightarrow>
              \<lfloor>2 * PI_DOUBLE u * radius (snd (arc_fit u s p)) / real_of_int (min_segments s)\<rfloor>
                < min_segments s \<and>
              \<lfloor>2 * PI_DOUBLE u * radius (snd (arc_fit u s p))
                 / (original_shape_length s + distance p)\<rfloor> < min_segments s) \<and>
           (num_firmware_compensations s' = num_firmware_compensations s + 1 \<longrightarrow> \<not> r) \<and>
           (num_firmware_compensations s' \<noteq> num_firmware_compensations s + 1 \<longrightarrow>
              num_firmware_compensations s' = num_firmware_compensations s)) \<and>
        (\<not> (0 < min_segments s \<and> 0 < mm_per_segment s) \<longrightarrow>
           num_firmware_compensations s' = num_firmware_compensations s))
   \<and> num_firmware_compensations (snd (segmented_spline_try_add_point_internal u t p))
       = num_firmware_compensations t"
proof (intro conjI impI)
  assume a: "\<not> int (length (points s)) < get_min_segments s - 1" "fst (arc_fit u s p)"
    "segmented_arc_try_add_point_internal u s p = Some (r, s')"
  note res = arc_try_created[OF a]
  have n: "num_firmware_compensations s' =
           num_firmware_compensations s + (if arc_firmware_rejects u s p then 1 else 0)"
    by (subst res(2)) simp
  {
    assume g: "0 < min_segments s \<and> 0 < mm_per_segment s"
    then have fw: "arc_firmware_rejects u s p \<longleftrightarrow>
              \<lfloor>2 * PI_DOUBLE u * radius (snd (arc_fit u s p)) / real_of_int (min_segments s)\<rfloor>
                < min_segments s \<and>
              \<lfloor>2 * PI_DOUBLE u * radius (snd (arc_fit u s p))
                 / (original_shape_length s + distance p)\<rfloor> < min_segments s"
      by (simp add: arc_firmware_rejects_def arc_circumference_def)
    from n fw show "num_firmware_compensations s' = num_firmware_compensations s + 1 \<longleftrightarrow>
              \<lfloor>2 * PI_DOUBLE u * radius (snd (arc_fit u s p)) / real_of_int (min_segments s)\<rfloor>
                < min_segments s \<and>
              \<lfloor>2 * PI_DOUBLE u * radius (snd (arc_fit u s p))
                 / (original_shape_length s + distance p)\<rfloor> < min_segments s"
      by (simp split: if_splits)
    {
      assume "num_firmware_compensations s' = num_firmware_compensations s + 1"
      with n have "arc_firmware_rejects u s p" by (simp split: if_splits)
      with res(1) show "\<not> r" by simp
    }
    {
      assume "num_firmware_compensations s' \<noteq> num_firmware_compensations s + 1"
      with n show "num_firmware_compensations s' = num_firmware_compensations s"
        by (simp split: if_splits)
    }
  }
  {
    assume "\<not> (0 < min_segments s \<and> 0 < mm_per_segment s)"
    then have "\<not> arc_firmware_rejects u s p" by (auto simp add: arc_firmware_rejects_def)
    with n show "num_firmware_compensations s' = num_firmware_compensations s" by simp
  }
next
  obtain q t' where step: "segmented_spline_try_add_point_internal u t p = (q, t')"
    by (cases "segmented_spline_try_add_point_internal u t p")
  from spline_try_counters_mono(2)[OF step] step
  show "num_firmware_compensations (snd (segmented_spline_try_add_point_internal u t p))
       = num_firmware_compensations t" by simp
qed

text \<open>
  Witness for C3: the same fit with \<^verbatim>\<open>mm_per_segment = 1\<close> is rejected and counted.
\<close>

theorem firmware_compensation_filter_witness:
  "\<not> int (length (points (arc_accumulator\<lparr>mm_per_segment := 1\<rparr>)))
       < get_min_segments (arc_accumulator\<lparr>mm_per_segment := 1\<rparr>) - 1
   \<and> fst (arc_fit (reference_externals True small_arc rising_spline)
          (arc_accumulator\<lparr>mm_per_segment := 1\<rparr>) (point_at 0 10 0))
   \<and> segmented_arc_try_add_point_internal (reference_externals True small_arc rising_spline)
        (arc_accumulator\<lparr>mm_per_segment := 1\<rparr>) (point_at 0 10 0)
       = Some (False, arc_accumulator\<lparr>mm_per_segment := 1, num_firmware_compensations := 1\<rparr>)
   \<and> 0 < min_segments (arc_accumulator\<lparr>mm_per_segment := 1\<rparr>)
   \<and> 0 < mm_per_segment (arc_accumulator\<lparr>mm_per_segment := 1\<rparr>)
   \<and> \<lfloor>2 * PI_DOUBLE (reference_externals True small_arc rising_spline)
         * radius (snd (arc_fit (reference_externals True small_arc rising_spline)
                          (arc_accumulator\<lparr>mm_per_segment := 1\<rparr>) (point_at 0 10 0)))
       / real_of_int (min_segments (arc_accumulator\<lparr>mm_per_segment := 1\<rparr>))\<rfloor>
       < min_segments (arc_accumulator\<lparr>mm_per_segment := 1\<rparr>)
   \<and> \<lfloor>2 * PI_DOUBLE (reference_externals True small_arc rising_spline)
         * radius (snd (arc_fit (reference_externals True small_arc rising_spline)
                          (arc_accumulator\<lparr>mm_per_segment := 1\<rparr>) (point_at 0 10 0)))
       / (original_shape_length (arc_accumulator\<lparr>mm_per_segment := 1\<rparr>)
          + distance (point_at 0 10 0))\<rfloor>
       < min_segments (arc_accumulator\<lparr>mm_per_segment := 1\<rparr>)
   \<and> num_firmware_compensations
         (arc_accumulator\<lparr>mm_per_segment := 1, num_firmware_compensations := 1\<rparr>)
       = num_firmware_compensations (arc_accumulator\<lparr>mm_per_segment := 1\<rparr>) + 1"
proof -
  let ?R = "reference_externals True small_arc rising_spline"
  let ?A = "arc_accumulator\<lparr>mm_per_segment := 1\<rparr>"
  let ?A' = "arc_accumulator\<lparr>mm_per_segment := 1, num_firmware_compensations := 1\<rparr>"
  let ?p = "point_at 0 10 0"
  have a: "\<not> int (length (points ?A)) < get_min_segments ?A - 1"
    by (simp add: get_min_segments_def example_defs)
  have b: "fst (arc_fit ?R ?A ?p)"
    by (simp add: program_point_defs reference_defs)
  have h: "segmented_arc_try_add_point_internal ?R ?A ?p = Some (False, ?A')"
    by (simp add: controller_defs emitter_defs reference_defs example_defs)
  have g: "0 < min_segments ?A \<and> 0 < mm_per_segment ?A"
    by (simp add: example_defs)
  have f1: "\<lfloor>2 * PI_DOUBLE ?R * radius (snd (arc_fit ?R ?A ?p))
       / real_of_int (min_segments ?A)\<rfloor> < min_segments ?A"
    by (simp add: program_point_defs reference_defs example_defs)
  have f2: "\<lfloor>2 * PI_DOUBLE ?R * radius (snd (arc_fit ?R ?A ?p))
       / (original_shape_length ?A + distance ?p)\<rfloor> < min_segments ?A"
    by (simp add: program_point_defs reference_defs example_defs)
  from firmware_compensation_filter[of ?A ?R ?p False ?A'] a b h g f1 f2
  have "num_firmware_compensations ?A' = num_firmware_compensations ?A + 1" by blast
  with a b h g f1 f2 show ?thesis by blast
qed

subsection \<open>C4: no degenerate arc is accepted\<close>

text \<open>
  C4: whenever \<^verbatim>\<open>try_add_point_internal_\<close> of an arc accumulator returns true, the arc it
  leaves as the current arc does not have I and J both zero within the tolerance, and its
  length is at least the tolerance. And along every sequence of calls on an accumulator
  that starts without a shape, whenever \<^verbatim>\<open>is_shape()\<close> holds the current arc is such an
  arc (for a solver that leaves its in/out arc untouched when it fails).
\<close>

theorem accepted_arc_not_degenerate:
  "(segmented_arc_try_add_point_internal u s p = Some (True, s') \<longrightarrow>
      \<not> (is_zero u (get_i (current_arc s')) (get_xyz_tolerance s') \<and>
         is_zero u (get_j (current_arc s')) (get_xyz_tolerance s')) \<and>
      get_xyz_tolerance s' \<le> length_arc (current_arc s'))
   \<and> (arc_solver_keeps_target u \<longrightarrow> \<not> is_shape s \<longrightarrow> arc_feed u s ps = Some s'' \<longrightarrow>
      is_shape s'' \<longrightarrow>
        \<not> (is_zero u (get_i (current_arc s'')) (get_xyz_tolerance s'') \<and>
           is_zero u (get_j (current_arc s'')) (get_xyz_tolerance s'')) \<and>
        get_xyz_tolerance s'' \<le> length_arc (current_arc s''))"
proof (intro conjI impI)
  assume "segmented_arc_try_add_point_internal u s p = Some (True, s')"
  from arc_try_accepted_invariant[OF this]
  show "\<not> (is_zero u (get_i (current_arc s')) (get_xyz_tolerance s') \<and>
         is_zero u (get_j (current_arc s')) (get_xyz_tolerance s'))"
    and "get_xyz_tolerance s' \<le> length_arc (current_arc s')"
    by (simp_all add: accepted_arc_invariant_def)
next
  assume a: "arc_solver_keeps_target u" "\<not> is_shape s" "arc_feed u s ps = Some s''"
    "is_shape s''"
  from a(2) have "is_shape s \<longrightarrow> accepted_arc_invariant u s" by simp
  from arc_feed_keeps_invariant[OF a(1) this a(3)] a(4)
  show "\<not> (is_zero u (get_i (current_arc s'')) (get_xyz_tolerance s'') \<and>
         is_zero u (get_j (current_arc s'')) (get_xyz_tolerance s''))"
    and "get_xyz_tolerance s'' \<le> length_arc (current_arc s'')"
    by (simp_all add: accepted_arc_invariant_def)
qed

text \<open>
  Witness for C4: an arc whose centre is its start point (I = J = 0) is rejected; a quarter
  circle of radius 10 about the origin is accepted, with I = -10 and J = 0.
\<close>

theorem accepted_arc_not_degenerate_witness:
  "segmented_arc_try_add_point_internal (reference_externals True collapsed_arc rising_spline)
      arc_accumulator (point_at 0 10 0)
     = Some (False, arc_accumulator)
   \<and> segmented_arc_try_add_point_internal (reference_externals True quarter_arc rising_spline)
      arc_accumulator (point_at 0 10 0)
     = Some (True, arc_accumulator
         \<lparr>points := [point_at 10 0 0, point_at 9 4 0, point_at 0 10 0],
          original_shape_length := 3, is_shape := True\<rparr>)
   \<and> arc_solver_keeps_target (reference_externals True quarter_arc rising_spline)
   \<and> \<not> is_shape arc_accumulator
   \<and> arc_feed (reference_externals True quarter_arc rising_spline) arc_accumulator
        [point_at 0 10 0]
     = Some (arc_accumulator
         \<lparr>points := [point_at 10 0 0, point_at 9 4 0, point_at 0 10 0],
          original_shape_length := 3, is_shape := True\<rparr>)
   \<and> is_shape (arc_accumulator
         \<lparr>points := [point_at 10 0 0, point_at 9 4 0, point_at 0 10 0],
          original_shape_length := 3, is_shape := True\<rparr>)
   \<and> \<not> (is_zero (reference_externals True quarter_arc rising_spline)
           (get_i (current_arc (arc_accumulator
              \<lparr>points := [point_at 10 0 0, point_at 9 4 0, point_at 0 10 0],
               original_shape_length := 3, is_shape := True\<rparr>)))
           (get_xyz_tolerance (arc_accumulator
              \<lparr>points := [point_at 10 0 0, point_at 9 4 0, point_at 0 10 0],
               original_shape_length := 3, is_shape := True\<rparr>))
         \<and> is_zero (reference_externals True quarter_arc rising_spline)
           (get_j (current_arc (arc_accumulator
              \<lparr>points := [point_at 10 0 0, point_at 9 4 0, point_at 0 10 0],
               original_shape_length := 3, is_shape := True\<rparr>)))
           (get_xyz_tolerance (arc_accumulator
              \<lparr>points := [point_at 10 0 0, point_at 9 4 0, point_at 0 10 0],
               original_shape_length := 3, is_shape := True\<rparr>)))
   \<and> get_xyz_tolerance (arc_accumulator
         \<lparr>points := [point_at 10 0 0, point_at 9 4 0, point_at 0 10 0],
          original_shape_length := 3, is_shape := True\<rparr>)
       \<le> length_arc (current_arc (arc_accumulator
         \<lparr>points := [point_at 10 0 0, point_at 9 4 0, point_at 0 10 0],
          original_shape_length := 3, is_shape := True\<rparr>))"
proof -
  let ?R = "reference_externals True quarter_arc rising_spline"
  let ?A' = "arc_accumulator
         \<lparr>points := [point_at 10 0 0, point_at 9 4 0, point_at 0 10 0],
          original_shape_length := 3, is_shape := True\<rparr>"
  have h: "segmented_arc_try_add_point_internal ?R arc_accumulator (point_at 0 10 0)
           = Some (True, ?A')"
    by (simp add: controller_defs emitter_defs reference_defs example_defs)
  have d: "segmented_arc_try_add_point_internal
             (reference_externals True collapsed_arc rising_spline)
             arc_accumulator (point_at 0 10 0)
           = Some (False, arc_accumulator)"
    by (simp add: controller_defs emitter_defs reference_defs example_defs)
  have k: "arc_solver_keeps_target ?R" by (rule reference_arc_solver)
  have n: "\<not> is_shape arc_accumulator" by (simp add: example_defs)
  have f: "arc_feed ?R arc_accumulator [point_at 0 10 0] = Some ?A'"
    using h by simp
  have i: "is_shape ?A'" by simp
  from accepted_arc_not_degenerate
         [of ?R arc_accumulator "point_at 0 10 0" ?A' "[point_at 0 10 0]" ?A'] h k n f i d
  show ?thesis by blast
qed

subsection \<open>C5: fewer points than the minimum\<close>

text \<open>
  C5: when fewer than \<^verbatim>\<open>min_segments - 1\<close> points are buffered, \<^verbatim>\<open>try_add_point\<close> of an arc
  and of a spline accumulator returns true with the candidate appended to the buffer,
  whatever the solver and the other collaborators are: no fit is attempted. Hence a sequence
  of points that does not take the buffer beyond \<^verbatim>\<open>min_segments - 1\<close> points is buffered
  whole. (\<^verbatim>\<open>try_add_point_internal_\<close> itself returns false for such a call, by
  \<open>arc_try_early\<close> and \<open>spline_try_early\<close>; \<^verbatim>\<open>try_add_point\<close> never makes it.)
\<close>

theorem too_few_points_buffered:
  "(int (length (points s)) < get_min_segments s - 1 \<longrightarrow>
      segmented_arc_try_add_point u s p =
        Some (True, s\<lparr>points := points s @ [p],
                       original_shape_length := original_shape_length s + distance p\<rparr>))
   \<and> (int (length (points t)) < get_min_segments t - 1 \<longrightarrow>
      segmented_spline_try_add_point u t p =
        (True, t\<lparr>points := points t @ [p],
                  original_shape_length := original_shape_length t + distance p\<rparr>))
   \<and> (int (length (points s) + length ps) \<le> get_min_segments s - 1 \<longrightarrow>
      arc_add_points u s ps =
        Some (s\<lparr>points := points s @ ps,
                original_shape_length := original_shape_length s + sum_list (map distance ps)\<rparr>))
   \<and> (int (length (points t) + length ps) \<le> get_min_segments t - 1 \<longrightarrow>
      spline_add_points u t ps =
        t\<lparr>points := points t @ ps,
          original_shape_length := original_shape_length t + sum_list (map distance ps)\<rparr>)"
  by (simp add: segmented_arc_try_add_point_def segmented_spline_try_add_point_def
        arc_add_points_buffers spline_add_points_buffers)

text \<open>
  Witness for C5: an empty arc and an empty spline accumulator with a minimum of three
  segments take their first point, and their first two points.
\<close>

theorem too_few_points_buffered_witness:
  "int (length (points (arc_accumulator\<lparr>points := [], original_shape_length := 0\<rparr>)))
     < get_min_segments (arc_accumulator\<lparr>points := [], original_shape_length := 0\<rparr>) - 1
   \<and> segmented_arc_try_add_point (reference_externals True quarter_arc rising_spline)
       (arc_accumulator\<lparr>points := [], original_shape_length := 0\<rparr>) (point_at 10 0 0)
     = Some (True, arc_accumulator\<lparr>points := [point_at 10 0 0], original_shape_length := 1\<rparr>)
   \<and> int (length (points (spline_accumulator\<lparr>points := [], original_shape_length := 0\<rparr>)))
     < get_min_segments (spline_accumulator\<lparr>points := [], original_shape_length := 0\<rparr>) - 1
   \<and> segmented_spline_try_add_point (reference_externals True quarter_arc rising_spline)
       (spline_accumulator\<lparr>points := [], original_shape_length := 0\<rparr>) (point_at 10 0 0)
     = (True, spline_accumulator\<lparr>points := [point_at 10 0 0], original_shape_length := 1\<rparr>)
   \<and> int (length (points (arc_accumulator\<lparr>points := [], original_shape_length := 0\<rparr>))
          + length [point_at 10 0 0, point_at 9 4 0])
     \<le> get_min_segments (arc_accumulator\<lparr>points := [], original_shape_length := 0\<rparr>) - 1
   \<and> arc_add_points (reference_externals True quarter_arc rising_spline)
       (arc_accumulator\<lparr>points := [], original_shape_length := 0\<rparr>)
       [point_at 10 0 0, point_at 9 4 0]
     = Some arc_accumulator
   \<and> spline_add_points (reference_externals True quarter_arc rising_spline)
       (spline_accumulator\<lparr>points := [], original_shape_length := 0\<rparr>)
       [point_at 10 0 0, point_at 9 4 0]
     = spline_accumulator"
proof -
  let ?R = "reference_externals True quarter_arc rising_spline"
  let ?A = "arc_accumulator\<lparr>points := [], original_shape_length := 0\<rparr>"
  let ?T = "spline_accumulator\<lparr>points := [], original_shape_length := 0\<rparr>"
  let ?ps = "[point_at 10 0 0, point_at 9 4 0]"
  have a: "int (length (points ?A)) < get_min_segments ?A - 1"
    by (simp add: get_min_segments_def arc_accumulator_def)
  have b: "int (length (points ?T)) < get_min_segments ?T - 1"
    by (simp add: get_min_segments_def spline_accumulator_def)
  have c: "int (length (points ?A) + length ?ps) \<le> get_min_segments ?A - 1"
    by (simp add: get_min_segments_def arc_accumulator_def)
  have d: "int (length (points ?T) + length ?ps) \<le> get_min_segments ?T - 1"
    by (simp add: get_min_segments_def spline_accumulator_def)
  have e1: "?A\<lparr>points := points ?A @ [point_at 10 0 0],
              original_shape_length := original_shape_length ?A + distance (point_at 10 0 0)\<rparr>
            = arc_accumulator\<lparr>points := [point_at 10 0 0], original_shape_length := 1\<rparr>"
    by (simp add: point_at_def)
  have e2: "?T\<lparr>points := points ?T @ [point_at 10 0 0],
              original_shape_length := original_shape_length ?T + distance (point_at 10 0 0)\<rparr>
            = spline_accumulator\<lparr>points := [point_at 10 0 0], original_shape_length := 1\<rparr>"
    by (simp add: point_at_def)
  have e3: "?A\<lparr>points := points ?A @ ?ps,
              original_shape_length := original_shape_length ?A + sum_list (map distance ?ps)\<rparr>
            = arc_accumulator"
    by (simp add: point_at_def arc_accumulator_def)
  have e4: "?T\<lparr>points := points ?T @ ?ps,
              original_shape_length := original_shape_length ?T + sum_list (map distance ?ps)\<rparr>
            = spline_accumulator"
    by (simp add: point_at_def spline_accumulator_def)
  from too_few_points_buffered[of ?A ?R "point_at 10 0 0" ?T ?ps] a b c d
  have "segmented_arc_try_add_point ?R ?A (point_at 10 0 0) =
          Some (True, ?A\<lparr>points := points ?A @ [point_at 10 0 0],
              original_shape_length := original_shape_length ?A + distance (point_at 10 0 0)\<rparr>)"
    and "segmented_spline_try_add_point ?R ?T (point_at 10 0 0) =
          (True, ?T\<lparr>points := points ?T @ [point_at 10 0 0],
              original_shape_length := original_shape_length ?T + distance (point_at 10 0 0)\<rparr>)"
    and "arc_add_points ?R ?A ?ps =
          Some (?A\<lparr>points := points ?A @ ?ps,
              original_shape_length := original_shape_length ?A + sum_list (map distance ?ps)\<rparr>)"
    and "spline_add_points ?R ?T ?ps =
          ?T\<lparr>points := points ?T @ ?ps,
              original_shape_length := original_shape_length ?T + sum_list (map distance ?ps)\<rparr>"
    by blast+
  note r = this[unfolded e1 e2 e3 e4]
  from a b c r show ?thesis by blast
qed

subsection \<open>C6: the emitted-length filter\<close>

text \<open>
  C6: in an arc and in a spline fit attempt that passes the solver, if
  \<^verbatim>\<open>max_gcode_length\<close> is positive and the predicted length of the candidate exceeds it, the
  call returns false and the length-exception counter is incremented by one. With
  \<^verbatim>\<open>max_gcode_length = 0\<close> the counter never changes, and the outcome of a fit attempt is
  decided by the other filters alone.
\<close>

theorem emitted_length_filter:
  "(\<not> int (length (points s)) < get_min_segments s - 1 \<longrightarrow> fst (arc_fit u s p) \<longrightarrow>
      segmented_arc_try_add_point_internal u s p = Some (r, s') \<longrightarrow>
        (0 < max_gcode_length s \<and>
         max_gcode_length s < segmented_arc_get_gcode_length u (arc_candidate u s p) \<longrightarrow>
           \<not> r \<and> num_gcode_length_exceptions s' = num_gcode_length_exceptions s + 1) \<and>
        (max_gcode_length s = 0 \<longrightarrow>
           (r \<longleftrightarrow> \<not> arc_firmware_rejects u s p \<and> \<not> arc_degenerate u s p)))
   \<and> (segmented_arc_try_add_point_internal u s p = Some (r, s') \<longrightarrow> max_gcode_length s = 0 \<longrightarrow>
        num_gcode_length_exceptions s' = num_gcode_length_exceptions s)
   \<and> (\<not> int (length (points t)) < get_min_segments t - 1 \<longrightarrow> fst (spline_fit u t p) \<longrightarrow>
      segmented_spline_try_add_point_internal u t p = (q, t') \<longrightarrow>
        (0 < max_gcode_length t \<and>
         max_gcode_length t < segmented_spline_get_gcode_length u (spline_candidate u t p) \<longrightarrow>
           \<not> q \<and> num_gcode_length_exceptions t' = num_gcode_length_exceptions t + 1) \<and>
        (max_gcode_length t = 0 \<longrightarrow> (q \<longleftrightarrow> \<not> spline_degenerate u t p)))
   \<and> (segmented_spline_try_add_point_internal u t p = (q, t') \<longrightarrow> max_gcode_length t = 0 \<longrightarrow>
        num_gcode_length_exceptions t' = num_gcode_length_exceptions t)"
proof (intro conjI impI)
  assume a: "\<not> int (length (points s)) < get_min_segments s - 1" "fst (arc_fit u s p)"
    "segmented_arc_try_add_point_internal u s p = Some (r, s')"
  note res = arc_try_created[OF a]
  {
    assume "0 < max_gcode_length s \<and>
         max_gcode_length s < segmented_arc_get_gcode_length u (arc_candidate u s p)"
    then have t: "arc_too_long u s p" by (simp add: arc_too_long_def)
    with res(1) show "\<not> r" by simp
    from t show "num_gcode_length_exceptions s' = num_gcode_length_exceptions s + 1"
      by (subst res(2)) simp
  }
  {
    assume "max_gcode_length s = 0"
    then have "\<not> arc_too_long u s p" by (simp add: arc_too_long_def)
    with res(1) show "r \<longleftrightarrow> \<not> arc_firmware_rejects u s p \<and> \<not> arc_degenerate u s p" by simp
  }
next
  assume a: "segmented_arc_try_add_point_internal u s p = Some (r, s')"
    and z: "max_gcode_length s = 0"
  from z have nt: "\<not> arc_too_long u s p" by (simp add: arc_too_long_def)
  from a show "num_gcode_length_exceptions s' = num_gcode_length_exceptions s"
    by (cases rule: arc_try_cases) (simp_all add: nt arc_candidate_def)
next
  assume a: "\<not> int (length (points t)) < get_min_segments t - 1" "fst (spline_fit u t p)"
    "segmented_spline_try_add_point_internal u t p = (q, t')"
  note res = spline_try_created[OF a]
  {
    assume "0 < max_gcode_length t \<and>
         max_gcode_length t < segmented_spline_get_gcode_length u (spline_candidate u t p)"
    then have t: "spline_too_long u t p" by (simp add: spline_too_long_def)
    with res(1) show "\<not> q" by simp
    from t show "num_gcode_length_exceptions t' = num_gcode_length_exceptions t + 1"
      by (subst res(2)) simp
  }
  {
    assume "max_gcode_length t = 0"
    then have "\<not> spline_too_long u t p" by (simp add: spline_too_long_def)
    with res(1) show "q \<longleftrightarrow> \<not> spline_degenerate u t p" by simp
  }
next
  assume a: "segmented_spline_try_add_point_internal u t p = (q, t')"
    and z: "max_gcode_length t = 0"
  from z have nt: "\<not> spline_too_long u t p" by (simp add: spline_too_long_def)
  from a show "num_gcode_length_exceptions t' = num_gcode_length_exceptions t"
    by (cases rule: spline_try_cases) (simp_all add: nt spline_candidate_def)
qed

text \<open>
  Witness for C6: a maximum of 20 against a predicted length of 33.
\<close>

theorem emitted_length_filter_witness:
  "\<not> int (length (points (arc_accumulator\<lparr>max_gcode_length := 20\<rparr>)))
       < get_min_segments (arc_accumulator\<lparr>max_gcode_length := 20\<rparr>) - 1
   \<and> fst (arc_fit (reference_externals True quarter_arc rising_spline)
          (arc_accumulator\<lparr>max_gcode_length := 20\<rparr>) (point_at 0 10 0))
   \<and> segmented_arc_try_add_point_internal (reference_externals True quarter_arc rising_spline)
        (arc_accumulator\<lparr>max_gcode_length := 20\<rparr>) (point_at 0 10 0)
       = Some (False, arc_accumulator\<lparr>max_gcode_length := 20, num_gcode_length_exceptions := 1\<rparr>)
   \<and> 0 < max_gcode_length (arc_accumulator\<lparr>max_gcode_length := 20\<rparr>)
   \<and> max_gcode_length (arc_accumulator\<lparr>max_gcode_length := 20\<rparr>)
       < segmented_arc_get_gcode_length (reference_externals True quarter_arc rising_spline)
           (arc_candidate (reference_externals True quarter_arc rising_spline)
              (arc_accumulator\<lparr>max_gcode_length := 20\<rparr>) (point_at 0 10 0))
   \<and> num_gcode_length_exceptions
         (arc_accumulator\<lparr>max_gcode_length := 20, num_gcode_length_exceptions := 1\<rparr>)
       = num_gcode_length_exceptions (arc_accumulator\<lparr>max_gcode_length := 20\<rparr>) + 1"
proof -
  let ?R = "reference_externals True quarter_arc rising_spline"
  let ?A = "arc_accumulator\<lparr>max_gcode_length := 20\<rparr>"
  let ?A' = "arc_accumulator\<lparr>max_gcode_length := 20, num_gcode_length_exceptions := 1\<rparr>"
  let ?p = "point_at 0 10 0"
  have a: "\<not> int (length (points ?A)) < get_min_segments ?A - 1"
    by (simp add: get_min_segments_def example_defs)
  have b: "fst (arc_fit ?R ?A ?p)"
    by (simp add: program_point_defs reference_defs)
  have h: "segmented_arc_try_add_point_internal ?R ?A ?p = Some (False, ?A')"
    by (simp add: controller_defs emitter_defs reference_defs example_defs)
  have g: "0 < max_gcode_length ?A" by (simp add: example_defs)
  have l: "max_gcode_length ?A < segmented_arc_get_gcode_length ?R (arc_candidate ?R ?A ?p)"
    by (simp add: program_point_defs emitter_defs reference_defs example_defs)
  from emitted_length_filter[of ?A ?R ?p False ?A'] a b h g l
  have "num_gcode_length_exceptions ?A' = num_gcode_length_exceptions ?A + 1" by blast
  with a b h g l show ?thesis by blast
qed

subsection \<open>C7: the Z term\<close>


subsection \<open>C8: a shape stays a shape\<close>

text \<open>
  C8: if \<^verbatim>\<open>is_shape()\<close> is true of an accumulator, it is true after every sequence of
  further \<^verbatim>\<open>try_add_point_internal_\<close> calls, accepted or rejected.
\<close>

theorem is_shape_stays_true:
  "(is_shape s \<longrightarrow> arc_feed u s ps = Some s' \<longrightarrow> is_shape s')
   \<and> (is_shape t \<longrightarrow> is_shape (spline_feed u t ps))"
  using arc_feed_is_shape spline_feed_is_shape by blast

text \<open>
  Witness for C8: an arc accumulator fed two points that are rejected (degenerate fits), and a
  spline accumulator fed two points on which the solver fails.
\<close>

theorem is_shape_stays_true_witness:
  "is_shape (arc_accumulator\<lparr>is_shape := True\<rparr>)
   \<and> arc_feed (reference_externals True collapsed_arc rising_spline)
        (arc_accumulator\<lparr>is_shape := True\<rparr>) [point_at 0 10 0, point_at 1 1 0]
       = Some (arc_accumulator\<lparr>is_shape := True\<rparr>)
   \<and> is_shape (spline_accumulator\<lparr>is_shape := True\<rparr>)
   \<and> is_shape (spline_feed (reference_externals False collapsed_arc rising_spline)
        (spline_accumulator\<lparr>is_shape := True\<rparr>) [point_at 0 10 0, point_at 1 1 0])"
proof -
  let ?R = "reference_externals True collapsed_arc rising_spline"
  let ?A = "arc_accumulator\<lparr>is_shape := True\<rparr>"
  let ?T = "spline_accumulator\<lparr>is_shape := True\<rparr>"
  have a: "is_shape ?A" by simp
  have t: "is_shape ?T" by simp
  have h: "arc_feed ?R ?A [point_at 0 10 0, point_at 1 1 0] = Some ?A"
    by (simp add: controller_defs emitter_defs reference_defs example_defs)
  from is_shape_stays_true
         [of ?A ?R "[point_at 0 10 0, point_at 1 1 0]" ?A ?T]
       is_shape_stays_true
         [of ?A "reference_externals False collapsed_arc rising_spline"
             "[point_at 0 10 0, point_at 1 1 0]" ?A ?T]
       a t h
  show ?thesis by blast
qed

subsection \<open>C9: the rejection counters are not rolled back\<close>

text \<open>
  C9: when a fit attempt that passed the solver returns false, the length-exception counter
  has grown by exactly one if the emitted-length filter marked the candidate and is
  unchanged otherwise, and likewise the firmware-compensation counter for the
  firmware-compensation filter, while the buffer, the length and the curve are restored.
  No later call decreases either counter.
\<close>

theorem rejection_counters_persist:
  "(\<not> int (length (points s)) < get_min_segments s - 1 \<longrightarrow> fst (arc_fit u s p) \<longrightarrow>
      segmented_arc_try_add_point_internal u s p = Some (False, s') \<longrightarrow>
        num_gcode_length_exceptions s' =
          num_gcode_length_exceptions s + (if arc_too_long u s p then 1 else 0) \<and>
        num_firmware_compensations s' =
          num_firmware_compensations s + (if arc_firmware_rejects u s p then 1 else 0) \<and>
        points s' = points s \<and> original_shape_length s' = original_shape_length s \<and>
        current_arc s' = current_arc s)
   \<and> (arc_feed u s' ps = Some s'' \<longrightarrow>
        num_gcode_length_exceptions s' \<le> num_gcode_length_exceptions s'' \<and>
        num_firmware_compensations s' \<le> num_firmware_compensations s'')
   \<and> (\<not> int (length (points t)) < get_min_segments t - 1 \<longrightarrow> fst (spline_fit u t p) \<longrightarrow>
      segmented_spline_try_add_point_internal u t p = (False, t') \<longrightarrow>
        num_gcode_length_exceptions t' =
          num_gcode_length_exceptions t + (if spline_too_long u t p then 1 else 0) \<and>
        points t' = points t \<and> original_shape_length t' = original_shape_length t \<and>
        current_spline t' = current_spline t)
   \<and> num_gcode_length_exceptions t' \<le> num_gcode_length_exceptions (spline_feed u t' ps)"
proof (intro conjI impI)
  assume a: "\<not> int (length (points s)) < get_min_segments s - 1" "fst (arc_fit u s p)"
    "segmented_arc_try_add_point_internal u s p = Some (False, s')"
  note eq = arc_try_created(2)[OF a]
  show "num_gcode_length_exceptions s' =
          num_gcode_length_exceptions s + (if arc_too_long u s p then 1 else 0)"
    by (subst eq) simp
  show "num_firmware_compensations s' =
          num_firmware_compensations s + (if arc_firmware_rejects u s p then 1 else 0)"
    by (subst eq) simp
  show "points s' = points s" by (subst eq) simp
  show "original_shape_length s' = original_shape_length s" by (subst eq) simp
  show "current_arc s' = current_arc s" by (subst eq) simp
next
  assume "arc_feed u s' ps = Some s''"
  from arc_feed_counters_mono[OF this]
  show "num_gcode_length_exceptions s' \<le> num_gcode_length_exceptions s''"
    and "num_firmware_compensations s' \<le> num_firmware_compensations s''"
    by simp_all
next
  assume a: "\<not> int (length (points t)) < get_min_segments t - 1" "fst (spline_fit u t p)"
    "segmented_spline_try_add_point_internal u t p = (False, t')"
  note eq = spline_try_created(2)[OF a]
  show "num_gcode_length_exceptions t' =
          num_gcode_length_exceptions t + (if spline_too_long u t p then 1 else 0)"
    by (subst eq) simp
  show "points t' = points t" by (subst eq) simp
  show "original_shape_length t' = original_shape_length t" by (subst eq) simp
  show "current_spline t' = current_spline t" by (subst eq) simp
next
  show "num_gcode_length_exceptions t' \<le> num_gcode_length_exceptions (spline_feed u t' ps)"
    using spline_feed_counters_mono[of t' u ps] by simp
qed

text \<open>
  Witness for C9: a fit that both filters mark; both counters grow by one.
\<close>

theorem rejection_counters_persist_witness:
  "\<not> int (length (points (arc_accumulator\<lparr>mm_per_segment := 1, max_gcode_length := 20\<rparr>)))
       < get_min_segments (arc_accumulator\<lparr>mm_per_segment := 1, max_gcode_length := 20\<rparr>) - 1
   \<and> fst (arc_fit (reference_externals True small_arc rising_spline)
          (arc_accumulator\<lparr>mm_per_segment := 1, max_gcode_length := 20\<rparr>) (point_at 0 10 0))
   \<and> segmented_arc_try_add_point_internal (reference_externals True small_arc rising_spline)
        (arc_accumulator\<lparr>mm_per_segment := 1, max_gcode_length := 20\<rparr>) (point_at 0 10 0)
       = Some (False, arc_accumulator\<lparr>mm_per_segment := 1, max_gcode_length := 20,
                 num_gcode_length_exceptions := 1, num_firmware_compensations := 1\<rparr>)
   \<and> arc_too_long (reference_externals True small_arc rising_spline)
          (arc_accumulator\<lparr>mm_per_segment := 1, max_gcode_length := 20\<rparr>) (point_at 0 10 0)
   \<and> arc_firmware_rejects (reference_externals True small_arc rising_spline)
          (arc_accumulator\<lparr>mm_per_segment := 1, max_gcode_length := 20\<rparr>) (point_at 0 10 0)
   \<and> num_gcode_length_exceptions
         (arc_accumulator\<lparr>mm_per_segment := 1, max_gcode_length := 20,
                 num_gcode_length_exceptions := 1, num_firmware_compensations := 1\<rparr>)
       = num_gcode_length_exceptions
           (arc_accumulator\<lparr>mm_per_segment := 1, max_gcode_length := 20\<rparr>) + 1
   \<and> num_firmware_compensations
         (arc_accumulator\<lparr>mm_per_segment := 1, max_gcode_length := 20,
                 num_gcode_length_exceptions := 1, num_firmware_compensations := 1\<rparr>)
       = num_firmware_compensations
           (arc_accumulator\<lparr>mm_per_segment := 1, max_gcode_length := 20\<rparr>) + 1"
proof -
  let ?R = "reference_externals True small_arc rising_spline"
  let ?A = "arc_accumulator\<lparr>mm_per_segment := 1, max_gcode_length := 20\<rparr>"
  let ?A' = "arc_accumulator\<lparr>mm_per_segment := 1, max_gcode_length := 20,
                 num_gcode_length_exceptions := 1, num_firmware_compensations := 1\<rparr>"
  let ?p = "point_at 0 10 0"
  have a: "\<not> int (length (points ?A)) < get_min_segments ?A - 1"
    by (simp add: get_min_segments_def example_defs)
  have b: "fst (arc_fit ?R ?A ?p)"
    by (simp add: program_point_defs reference_defs)
  have h: "segmented_arc_try_add_point_internal ?R ?A ?p = Some (False, ?A')"
    by (simp add: controller_defs emitter_defs reference_defs example_defs)
  have l: "arc_too_long ?R ?A ?p"
    by (simp add: program_point_defs emitter_defs reference_defs example_defs)
  have w: "arc_firmware_rejects ?R ?A ?p"
    by (simp add: program_point_defs reference_defs example_defs)
  from rejection_counters_persist[of ?A ?R ?p ?A'] a b h
  have "num_gcode_length_exceptions ?A' =
          num_gcode_length_exceptions ?A + (if arc_too_long ?R ?A ?p then 1 else 0)"
    and "num_firmware_compensations ?A' =
          num_firmware_compensations ?A + (if arc_firmware_rejects ?R ?A ?p then 1 else 0)"
    by blast+
  with l w have "num_gcode_length_exceptions ?A' = num_gcode_length_exceptions ?A + 1"
    and "num_firmware_compensations ?A' = num_firmware_compensations ?A + 1"
    by simp_all
  with a b h l w show ?thesis by blast
qed

subsection \<open>C10: the guard of firmware compensation\<close>

text \<open>
  C10: when \<^verbatim>\<open>min_segments\<close> or \<^verbatim>\<open>mm_per_segment\<close> is not positive, the
  firmware-compensation counter is unchanged by the call, the call has defined behaviour,
  and a fit attempt is decided by the other two filters alone. When both are positive the
  filter is evaluated: a fit attempt that passed the solver and whose casts are defined
  returns, with the counter incremented iff both quotients are below \<^verbatim>\<open>min_segments\<close>, and
  then it returns false. The value of a positive \<^verbatim>\<open>mm_per_segment\<close> has no influence on the
  call: it is only compared with zero.
\<close>

theorem firmware_compensation_guard:
  "(segmented_arc_try_add_point_internal u s p = Some (r, s') \<longrightarrow>
      \<not> (0 < min_segments s \<and> 0 < mm_per_segment s) \<longrightarrow>
        num_firmware_compensations s' = num_firmware_compensations s)
   \<and> (\<not> (0 < min_segments s \<and> 0 < mm_per_segment s) \<longrightarrow>
        (\<exists>v. segmented_arc_try_add_point_internal u s p = Some v))
   \<and> (\<not> int (length (points s)) < get_min_segments s - 1 \<longrightarrow> fst (arc_fit u s p) \<longrightarrow>
      segmented_arc_try_add_point_internal u s p = Some (r, s') \<longrightarrow>
        (\<not> (0 < min_segments s \<and> 0 < mm_per_segment s) \<longrightarrow>
           (r \<longleftrightarrow> \<not> arc_too_long u s p \<and> \<not> arc_degenerate u s p)) \<and>
        (0 < min_segments s \<and> 0 < mm_per_segment s \<longrightarrow>
           (num_firmware_compensations s' = num_firmware_compensations s + 1 \<longleftrightarrow>
              \<lfloor>2 * PI_DOUBLE u * radius (snd (arc_fit u s p)) / real_of_int (min_segments s)\<rfloor>
                < min_segments s \<and>
              \<lfloor>2 * PI_DOUBLE u * radius (snd (arc_fit u s p))
                 / (original_shape_length s + distance p)\<rfloor> < min_segments s)))
   \<and> (\<not> int (length (points s)) < get_min_segments s - 1 \<longrightarrow> fst (arc_fit u s p) \<longrightarrow>
      0 < min_segments s \<and> 0 < mm_per_segment s \<longrightarrow> arc_firmware_defined u s p \<longrightarrow>
        (\<exists>r1 s1. segmented_arc_try_add_point_internal u s p = Some (r1, s1) \<and>
           num_firmware_compensations s1 =
             num_firmware_compensations s +
             (if \<lfloor>2 * PI_DOUBLE u * radius (snd (arc_fit u s p))
                    / real_of_int (min_segments s)\<rfloor> < min_segments s \<and>
                 \<lfloor>2 * PI_DOUBLE u * radius (snd (arc_fit u s p))
                    / (original_shape_length s + distance p)\<rfloor> < min_segments s
              then 1 else 0) \<and>
           (\<lfloor>2 * PI_DOUBLE u * radius (snd (arc_fit u s p))
                / real_of_int (min_segments s)\<rfloor> < min_segments s \<and>
            \<lfloor>2 * PI_DOUBLE u * radius (snd (arc_fit u s p))
                / (original_shape_length s + distance p)\<rfloor> < min_segments s
              \<longrightarrow> \<not> r1)))
   \<and> (0 < m \<longrightarrow> 0 < m' \<longrightarrow>
        segmented_arc_try_add_point_internal u (s\<lparr>mm_per_segment := m'\<rparr>) p =
        map_option (\<lambda>(r, s1). (r, s1\<lparr>mm_per_segment := m'\<rparr>))
          (segmented_arc_try_add_point_internal u (s\<lparr>mm_per_segment := m\<rparr>) p))"
proof (intro conjI impI)
  assume a: "segmented_arc_try_add_point_internal u s p = Some (r, s')"
    and g: "\<not> (0 < min_segments s \<and> 0 < mm_per_segment s)"
  from g have nf: "\<not> arc_firmware_rejects u s p" by (auto simp add: arc_firmware_rejects_def)
  from a show "num_firmware_compensations s' = num_firmware_compensations s"
    by (cases rule: arc_try_cases) (simp_all add: nf arc_candidate_def)
next
  assume g: "\<not> (0 < min_segments s \<and> 0 < mm_per_segment s)"
  from arc_try_defined_without_firmware[OF g, of u p]
  show "\<exists>v. segmented_arc_try_add_point_internal u s p = Some v" by auto
next
  assume a: "\<not> int (length (points s)) < get_min_segments s - 1" "fst (arc_fit u s p)"
    "segmented_arc_try_add_point_internal u s p = Some (r, s')"
    and g: "\<not> (0 < min_segments s \<and> 0 < mm_per_segment s)"
  from g have nf: "\<not> arc_firmware_rejects u s p" by (auto simp add: arc_firmware_rejects_def)
  with arc_try_created(1)[OF a]
  show "r \<longleftrightarrow> \<not> arc_too_long u s p \<and> \<not> arc_degenerate u s p" by simp
next
  assume a: "\<not> int (length (points s)) < get_min_segments s - 1" "fst (arc_fit u s p)"
    "segmented_arc_try_add_point_internal u s p = Some (r, s')"
    and g: "0 < min_segments s \<and> 0 < mm_per_segment s"
  have n: "num_firmware_compensations s' =
           num_firmware_compensations s + (if arc_firmware_rejects u s p then 1 else 0)"
    by (subst arc_try_created(2)[OF a]) simp
  from g have fw: "arc_firmware_rejects u s p \<longleftrightarrow>
              \<lfloor>2 * PI_DOUBLE u * radius (snd (arc_fit u s p)) / real_of_int (min_segments s)\<rfloor>
                < min_segments s \<and>
              \<lfloor>2 * PI_DOUBLE u * radius (snd (arc_fit u s p))
                 / (original_shape_length s + distance p)\<rfloor> < min_segments s"
    by (simp add: arc_firmware_rejects_def arc_circumference_def)
  from n fw show "num_firmware_compensations s' = num_firmware_compensations s + 1 \<longleftrightarrow>
              \<lfloor>2 * PI_DOUBLE u * radius (snd (arc_fit u s p)) / real_of_int (min_segments s)\<rfloor>
                < min_segments s \<and>
              \<lfloor>2 * PI_DOUBLE u * radius (snd (arc_fit u s p))
                 / (original_shape_length s + distance p)\<rfloor> < min_segments s"
    by (simp split: if_splits)
next
  assume a: "\<not> int (length (points s)) < get_min_segments s - 1" "fst (arc_fit u s p)"
    and g: "0 < min_segments s \<and> 0 < mm_per_segment s"
    and d: "arc_firmware_defined u s p"
  from g d arc_try_defined_with_firmware[of s u p]
  obtain r1 s1 where res: "segmented_arc_try_add_point_internal u s p = Some (r1, s1)"
    by auto
  have n: "num_firmware_compensations s1 =
           num_firmware_compensations s + (if arc_firmware_rejects u s p then 1 else 0)"
    by (subst arc_try_created(2)[OF a res]) simp
  from g have fw: "arc_firmware_rejects u s p \<longleftrightarrow>
              \<lfloor>2 * PI_DOUBLE u * radius (snd (arc_fit u s p)) / real_of_int (min_segments s)\<rfloor>
                < min_segments s \<and>
              \<lfloor>2 * PI_DOUBLE u * radius (snd (arc_fit u s p))
                 / (original_shape_length s + distance p)\<rfloor> < min_segments s"
    by (simp add: arc_firmware_rejects_def arc_circumference_def)
  from arc_try_created(1)[OF a res] have "arc_firmware_rejects u s p \<longrightarrow> \<not> r1" by simp
  with res n show "\<exists>r1 s1. segmented_arc_try_add_point_internal u s p = Some (r1, s1) \<and>
           num_firmware_compensations s1 =
             num_firmware_compensations s +
             (if \<lfloor>2 * PI_DOUBLE u * radius (snd (arc_fit u s p))
                    / real_of_int (min_segments s)\<rfloor> < min_segments s \<and>
                 \<lfloor>2 * PI_DOUBLE u * radius (snd (arc_fit u s p))
                    / (original_shape_length s + distance p)\<rfloor> < min_segments s
              then 1 else 0) \<and>
           (\<lfloor>2 * PI_DOUBLE u * radius (snd (arc_fit u s p))
                / real_of_int (min_segments s)\<rfloor> < min_segments s \<and>
            \<lfloor>2 * PI_DOUBLE u * radius (snd (arc_fit u s p))
                / (original_shape_length s + distance p)\<rfloor> < min_segments s
              \<longrightarrow> \<not> r1)"
    unfolding fw[symmetric] by blast
next
  assume "0 < m" "0 < m'"
  then show "segmented_arc_try_add_point_internal u (s\<lparr>mm_per_segment := m'\<rparr>) p =
        map_option (\<lambda>(r, s1). (r, s1\<lparr>mm_per_segment := m'\<rparr>))
          (segmented_arc_try_add_point_internal u (s\<lparr>mm_per_segment := m\<rparr>) p)"
    by (rule arc_try_mm)
qed

text \<open>
  Witness for C10: with \<^verbatim>\<open>mm_per_segment = 0\<close> a small arc is accepted and not counted; with
  \<^verbatim>\<open>mm_per_segment = 1\<close> the same fit is rejected and counted.
\<close>

theorem firmware_compensation_guard_witness:
  "\<not> (0 < min_segments arc_accumulator \<and> 0 < mm_per_segment arc_accumulator)
   \<and> segmented_arc_try_add_point_internal (reference_externals True small_arc rising_spline)
        arc_accumulator (point_at 0 10 0)
       = Some (True, arc_accumulator
           \<lparr>points := [point_at 10 0 0, point_at 9 4 0, point_at 0 10 0],
            original_shape_length := 3, is_shape := True, current_arc := small_arc\<rparr>)
   \<and> num_firmware_compensations (arc_accumulator
           \<lparr>points := [point_at 10 0 0, point_at 9 4 0, point_at 0 10 0],
            original_shape_length := 3, is_shape := True, current_arc := small_arc\<rparr>)
       = num_firmware_compensations arc_accumulator
   \<and> \<not> int (length (points (arc_accumulator\<lparr>mm_per_segment := 1\<rparr>)))
       < get_min_segments (arc_accumulator\<lparr>mm_per_segment := 1\<rparr>) - 1
   \<and> fst (arc_fit (reference_externals True small_arc rising_spline)
          (arc_accumulator\<lparr>mm_per_segment := 1\<rparr>) (point_at 0 10 0))
   \<and> 0 < min_segments (arc_accumulator\<lparr>mm_per_segment := 1\<rparr>)
   \<and> 0 < mm_per_segment (arc_accumulator\<lparr>mm_per_segment := 1\<rparr>)
   \<and> arc_firmware_defined (reference_externals True small_arc rising_spline)
          (arc_accumulator\<lparr>mm_per_segment := 1\<rparr>) (point_at 0 10 0)
   \<and> (\<exists>r1 s1. segmented_arc_try_add_point_internal
                 (reference_externals True small_arc rising_spline)
                 (arc_accumulator\<lparr>mm_per_segment := 1\<rparr>) (point_at 0 10 0) = Some (r1, s1)
        \<and> num_firmware_compensations s1
            = num_firmware_compensations (arc_accumulator\<lparr>mm_per_segment := 1\<rparr>) + 1
        \<and> \<not> r1)"
proof -
  let ?R = "reference_externals True small_arc rising_spline"
  let ?A' = "arc_accumulator
           \<lparr>points := [point_at 10 0 0, point_at 9 4 0, point_at 0 10 0],
            original_shape_length := 3, is_shape := True, current_arc := small_arc\<rparr>"
  let ?B = "arc_accumulator\<lparr>mm_per_segment := 1\<rparr>"
  let ?p = "point_at 0 10 0"
  have g: "\<not> (0 < min_segments arc_accumulator \<and> 0 < mm_per_segment arc_accumulator)"
    by (simp add: example_defs)
  have h: "segmented_arc_try_add_point_internal ?R arc_accumulator ?p = Some (True, ?A')"
    by (simp add: controller_defs emitter_defs reference_defs example_defs)
  from firmware_compensation_guard[of ?R arc_accumulator ?p True ?A'] g h
  have c: "num_firmware_compensations ?A' = num_firmware_compensations arc_accumulator"
    by blast
  have a: "\<not> int (length (points ?B)) < get_min_segments ?B - 1"
    by (simp add: get_min_segments_def example_defs)
  have b: "fst (arc_fit ?R ?B ?p)"
    by (simp add: program_point_defs reference_defs)
  have e: "0 < min_segments ?B" "0 < mm_per_segment ?B"
    by (simp_all add: example_defs)
  have d: "arc_firmware_defined ?R ?B ?p"
    by (simp add: arc_firmware_defined_def program_point_defs floor_to_int_def reference_defs
          example_defs)
  have f1: "\<lfloor>2 * PI_DOUBLE ?R * radius (snd (arc_fit ?R ?B ?p))
       / real_of_int (min_segments ?B)\<rfloor> < min_segments ?B"
    by (simp add: program_point_defs reference_defs example_defs)
  have f2: "\<lfloor>2 * PI_DOUBLE ?R * radius (snd (arc_fit ?R ?B ?p))
       / (original_shape_length ?B + distance ?p)\<rfloor> < min_segments ?B"
    by (simp add: program_point_defs reference_defs example_defs)
  from firmware_compensation_guard[of ?R ?B ?p True ?A'] a b e d
  have "\<exists>r1 s1. segmented_arc_try_add_point_internal ?R ?B ?p = Some (r1, s1) \<and>
           num_firmware_compensations s1 =
             num_firmware_compensations ?B +
             (if \<lfloor>2 * PI_DOUBLE ?R * radius (snd (arc_fit ?R ?B ?p))
                    / real_of_int (min_segments ?B)\<rfloor> < min_segments ?B \<and>
                 \<lfloor>2 * PI_DOUBLE ?R * radius (snd (arc_fit ?R ?B ?p))
                    / (original_shape_length ?B + distance ?p)\<rfloor> < min_segments ?B
              then 1 else 0) \<and>
           (\<lfloor>2 * PI_DOUBLE ?R * radius (snd (arc_fit ?R ?B ?p))
                / real_of_int (min_segments ?B)\<rfloor> < min_segments ?B \<and>
            \<lfloor>2 * PI_DOUBLE ?R * radius (snd (arc_fit ?R ?B ?p))
                / (original_shape_length ?B + distance ?p)\<rfloor> < min_segments ?B
              \<longrightarrow> \<not> r1)"
    by blast
  with f1 f2 have x: "\<exists>r1 s1. segmented_arc_try_add_point_internal ?R ?B ?p = Some (r1, s1) \<and>
           num_firmware_compensations s1 = num_firmware_compensations ?B + 1 \<and> \<not> r1"
    by auto
  from g h c a b e d x show ?thesis by blast
qed

end
